theory Spec2Isabelle
  imports Main "HOL-Library.AList" "HOL-Library.Char_ord" "HOL-Library.List_Lexorder"
begin

section \<open>SFDeploy: the hot-deploy pipeline for SmartFox Server extensions\<close>

text \<open>
  The program is the single-file version of the tool (the file with \<open>smartFoxCmdPid\<close>,
  \<open>main\<close>, the five phase handlers and their helpers). \<open>main.go\<close> and \<open>config.go\<close>
  repeat \<open>main\<close>, \<open>loadConfig\<close>, \<open>saveConfig\<close>, \<open>validateSourceDir\<close>,
  \<open>validateTargetDir\<close> and \<open>hasJavaFiles\<close> word for word; the \<open>setupDirectories\<close> of
  \<open>config.go\<close> differs in how it reuses a saved configuration and is modelled as well.

  Go strings are byte strings: \<open>string\<close>. Everything the program does to the machine
  (console, file tree, external commands, the configuration file) goes through an explicit
  \<open>world\<close> value that each function takes and returns.
\<close>

subsection \<open>The \<open>strings\<close> package\<close>

definition bslash :: char where
  "bslash = CHR 0x5C"

text \<open>\<open>strings.HasPrefix\<close>, \<open>strings.HasSuffix\<close>, \<open>strings.Contains\<close>.\<close>

fun hasPrefix :: "string \<Rightarrow> string \<Rightarrow> bool" where
  "hasPrefix s [] = True"
| "hasPrefix [] (p # ps) = False"
| "hasPrefix (c # cs) (p # ps) = (c = p \<and> hasPrefix cs ps)"

definition hasSuffix :: "string \<Rightarrow> string \<Rightarrow> bool" where
  "hasSuffix s suffix = hasPrefix (rev s) (rev suffix)"

fun contains :: "string \<Rightarrow> string \<Rightarrow> bool" where
  "contains [] sub = (sub = [])"
| "contains (c # cs) sub = (hasPrefix (c # cs) sub \<or> contains cs sub)"

text \<open>
  \<open>strings.ToLower\<close>. Only the letters \<open>A\<close> to \<open>Z\<close> are mapped. Go also lowers letters
  outside ASCII, but none of them becomes one of the ASCII letters the program compares
  with (\<open>.java\<close>, \<open>.class\<close>, \<open>y\<close>, \<open>yes\<close>, \<open>n\<close>, \<open>no\<close>), so every test made on the
  result is the same.
\<close>

definition toLowerChar :: "char \<Rightarrow> char" where
  "toLowerChar c = (case c of Char b0 b1 b2 b3 b4 b5 b6 b7 \<Rightarrow>
      if CHR ''A'' \<le> c \<and> c \<le> CHR ''Z'' then Char b0 b1 b2 b3 b4 True b6 b7 else c)"

definition toLower :: "string \<Rightarrow> string" where
  "toLower s = map toLowerChar s"

text \<open>
  White space as \<open>unicode.IsSpace\<close> has it, each rune in its UTF-8 encoding: tab, line
  feed, vertical tab, form feed, carriage return, space, U+0085, U+00A0, U+1680,
  U+2000 to U+200A, U+2028, U+2029, U+202F, U+205F, U+3000.
\<close>

definition space_runes :: "string list" where
  "space_runes =
     [[CHR 0x09], [CHR 0x0A], [CHR 0x0B], [CHR 0x0C], [CHR 0x0D], [CHR 0x20],
      [CHR 0xC2, CHR 0x85], [CHR 0xC2, CHR 0xA0], [CHR 0xE1, CHR 0x9A, CHR 0x80],
      [CHR 0xE2, CHR 0x80, CHR 0x80], [CHR 0xE2, CHR 0x80, CHR 0x81],
      [CHR 0xE2, CHR 0x80, CHR 0x82], [CHR 0xE2, CHR 0x80, CHR 0x83],
      [CHR 0xE2, CHR 0x80, CHR 0x84], [CHR 0xE2, CHR 0x80, CHR 0x85],
      [CHR 0xE2, CHR 0x80, CHR 0x86], [CHR 0xE2, CHR 0x80, CHR 0x87],
      [CHR 0xE2, CHR 0x80, CHR 0x88], [CHR 0xE2, CHR 0x80, CHR 0x89],
      [CHR 0xE2, CHR 0x80, CHR 0x8A], [CHR 0xE2, CHR 0x80, CHR 0xA8],
      [CHR 0xE2, CHR 0x80, CHR 0xA9], [CHR 0xE2, CHR 0x80, CHR 0xAF],
      [CHR 0xE2, CHR 0x81, CHR 0x9F], [CHR 0xE3, CHR 0x80, CHR 0x80]]"

text \<open>The number of bytes of the white-space rune a string starts with; 0 when it starts
  with none. \<open>space_width_rev\<close> reads a reversed string, for the right end.\<close>

definition space_width :: "string \<Rightarrow> nat" where
  "space_width s = (case find (\<lambda>r. hasPrefix s r) space_runes of None \<Rightarrow> 0 | Some r \<Rightarrow> length r)"

definition space_width_rev :: "string \<Rightarrow> nat" where
  "space_width_rev s =
     (case find (\<lambda>r. hasPrefix s (rev r)) space_runes of None \<Rightarrow> 0 | Some r \<Rightarrow> length r)"

text \<open>\<open>strings.TrimSpace\<close>: the first argument counts the bytes still to drop of the
  white-space rune being removed.\<close>

fun trim_go :: "(string \<Rightarrow> nat) \<Rightarrow> nat \<Rightarrow> string \<Rightarrow> string" where
  "trim_go width k [] = []"
| "trim_go width (Suc k) (c # cs) = trim_go width k cs"
| "trim_go width 0 (c # cs) =
     (let n = width (c # cs) in if n = 0 then c # cs else trim_go width (n - 1) cs)"

definition trimSpace :: "string \<Rightarrow> string" where
  "trimSpace s = rev (trim_go space_width_rev 0 (rev (trim_go space_width 0 s)))"

text \<open>\<open>strings.Fields\<close>: the maximal runs of bytes that are not white space.\<close>

fun fields_go :: "nat \<Rightarrow> string \<Rightarrow> string \<Rightarrow> string list" where
  "fields_go k cur [] = (if cur = [] then [] else [cur])"
| "fields_go (Suc k) cur (c # cs) = fields_go k cur cs"
| "fields_go 0 cur (c # cs) =
     (let n = space_width (c # cs) in
      if n = 0 then fields_go 0 (cur @ [c]) cs
      else (if cur = [] then [] else [cur]) @ fields_go (n - 1) [] cs)"

definition strings_Fields :: "string \<Rightarrow> string list" where
  "strings_Fields s = fields_go 0 [] s"

text \<open>\<open>strings.Split\<close> with a separator of one byte (the program splits at line feeds
  and at commas), and \<open>strings.Join\<close>.\<close>

fun split_at :: "char \<Rightarrow> string \<Rightarrow> string list" where
  "split_at sep [] = [[]]"
| "split_at sep (c # cs) =
     (if c = sep then [] # split_at sep cs
      else (case split_at sep cs of [] \<Rightarrow> [[c]] | p # ps \<Rightarrow> (c # p) # ps))"

fun join_with :: "string \<Rightarrow> string list \<Rightarrow> string" where
  "join_with sep [] = []"
| "join_with sep [x] = x"
| "join_with sep (x # y # ys) = x @ sep @ join_with sep (y # ys)"

text \<open>\<open>%d\<close> of a count.\<close>

definition digit_char :: "nat \<Rightarrow> char" where
  "digit_char d = (''0123456789'' ! d)"

fun decimal :: "nat \<Rightarrow> string" where
  "decimal n = (if n < 10 then [digit_char n] else decimal (n div 10) @ [digit_char (n mod 10)])"

declare decimal.simps [simp del]

subsection \<open>Paths (\<open>path/filepath\<close>)\<close>

text \<open>
  Paths are the strings the program handles. \<open>windows\<close> is \<open>runtime.GOOS == "windows"\<close>:
  it picks the separator, and on Windows both slashes separate.

  \<open>filepath.Join\<close> skips empty elements and joins the rest with the separator. Go then
  rewrites the result to its shortest spelling (\<open>Clean\<close>); that step is left out here,
  because every lookup in the file tree below resolves empty, \<open>.\<close> and \<open>..\<close> elements
  itself, so the joined path names the same entry (the tree has no symbolic links). A
  drive is a letter and a colon at the start of a Windows path; \<open>C:x\<close> is read as
  \<open>C:\x\<close>, and UNC paths are not treated.
\<close>

definition separator :: "bool \<Rightarrow> char" where
  "separator win = (if win then bslash else CHR ''/'')"

definition isPathSeparator :: "bool \<Rightarrow> char \<Rightarrow> bool" where
  "isPathSeparator win c = (c = CHR ''/'' \<or> (win \<and> c = bslash))"

definition path_join :: "bool \<Rightarrow> string list \<Rightarrow> string" where
  "path_join win elems = join_with [separator win] (filter (\<lambda>e. e \<noteq> []) elems)"

definition volume_len :: "bool \<Rightarrow> string \<Rightarrow> nat" where
  "volume_len win p = (if win \<and> 2 \<le> length p \<and> p ! 1 = CHR '':'' then 2 else 0)"

fun path_elems :: "bool \<Rightarrow> string \<Rightarrow> string list" where
  "path_elems win [] = [[]]"
| "path_elems win (c # cs) =
     (if isPathSeparator win c then [] # path_elems win cs
      else (case path_elems win cs of [] \<Rightarrow> [[c]] | p # ps \<Rightarrow> (c # p) # ps))"

text \<open>\<open>filepath.Dir\<close>: the path without its last element and without the separators
  before it; \<open>.\<close> when nothing is left, the separator for the root.\<close>

definition path_dir :: "bool \<Rightarrow> string \<Rightarrow> string" where
  "path_dir win p =
     (let d = rev (dropWhile (\<lambda>c. \<not> isPathSeparator win c) (rev p));
          t = rev (dropWhile (isPathSeparator win) (rev d))
      in if d = [] then ''.'' else if t = [] then [separator win] else t)"

text \<open>\<open>filepath.Base\<close>, which is also \<open>info.Name()\<close> of the root of a walk.\<close>

definition path_base :: "bool \<Rightarrow> string \<Rightarrow> string" where
  "path_base win p =
     (let t = dropWhile (isPathSeparator win) (rev p)
      in if p = [] then ''.'' else if t = [] then [separator win]
         else rev (takeWhile (\<lambda>c. \<not> isPathSeparator win c) t))"

text \<open>\<open>filepath.Split\<close>: the directory part, with its final separator, and the last
  element.\<close>

definition path_split :: "bool \<Rightarrow> string \<Rightarrow> string \<times> string" where
  "path_split win p =
     (let v = volume_len win p;
          f = rev (takeWhile (\<lambda>c. \<not> isPathSeparator win c) (rev (drop v p)))
      in (take (length p - length f) p, f))"

subsection \<open>The file tree\<close>

text \<open>
  A file carries a lock flag (a locked file cannot be removed or overwritten: on Windows
  the running server holds its archives open) and its contents. A directory carries a
  flag saying whether it can be listed, and its entries in the order a listing returns
  them (Go sorts the names, and new entries are inserted in name order). \<open>Denied\<close> is an
  entry that \<open>lstat\<close> fails on with an error other than "does not exist". Names are
  compared byte for byte.
\<close>

datatype node = File bool string | Dir bool "(string \<times> node) list" | Denied

text \<open>What \<open>os.Stat\<close> reports: \<open>Found\<close> is \<open>err == nil\<close>, \<open>NotExist\<close> is an error with
  \<open>os.IsNotExist(err)\<close>, \<open>StatError\<close> any other error.\<close>

datatype stat_result = Found node | NotExist | StatError

fun lookup :: "node \<Rightarrow> string list \<Rightarrow> stat_result" where
  "lookup n [] = (case n of Denied \<Rightarrow> StatError | _ \<Rightarrow> Found n)"
| "lookup (Dir r es) (c # cs) =
     (case map_of es c of None \<Rightarrow> NotExist | Some ch \<Rightarrow> lookup ch cs)"
| "lookup (File l d) (c # cs) = StatError"
| "lookup Denied (c # cs) = StatError"

text \<open>\<open>os.Remove\<close> at a resolved path: a file that is not locked, or an empty directory.\<close>

fun remove_at :: "string list \<Rightarrow> node \<Rightarrow> node option" where
  "remove_at [c] (Dir r es) =
     (case map_of es c of
        Some (File locked d) \<Rightarrow> if locked then None else Some (Dir r (AList.delete c es))
      | Some (Dir r' es') \<Rightarrow> if es' = [] then Some (Dir r (AList.delete c es)) else None
      | _ \<Rightarrow> None)"
| "remove_at (c # c' # cs) (Dir r es) =
     (case map_of es c of
        Some ch \<Rightarrow> map_option (\<lambda>ch'. Dir r (AList.update c ch' es)) (remove_at (c' # cs) ch)
      | None \<Rightarrow> None)"
| "remove_at cs n = None"

text \<open>\<open>os.Create\<close> followed by writing \<open>d\<close>: a new file, or an existing unlocked file
  truncated and rewritten. Fails on a locked file, on a directory, and when the parent
  is missing or not a directory.\<close>

fun create_at :: "string list \<Rightarrow> string \<Rightarrow> node \<Rightarrow> node option" where
  "create_at [c] d (Dir r es) =
     (case map_of es c of
        None \<Rightarrow> Some (Dir r (insort_key fst (c, File False d) es))
      | Some (File locked old) \<Rightarrow>
          if locked then None else Some (Dir r (AList.update c (File False d) es))
      | Some other \<Rightarrow> None)"
| "create_at (c # c' # cs) d (Dir r es) =
     (case map_of es c of
        Some ch \<Rightarrow> map_option (\<lambda>ch'. Dir r (AList.update c ch' es)) (create_at (c' # cs) d ch)
      | None \<Rightarrow> None)"
| "create_at cs d n = None"

text \<open>\<open>os.MkdirAll\<close> at a resolved path: missing directories are created along the
  way; an element that exists and is not a directory is an error.\<close>

fun mkdirs :: "string list \<Rightarrow> node \<Rightarrow> node option" where
  "mkdirs [] n = (case n of Dir r es \<Rightarrow> Some n | _ \<Rightarrow> None)"
| "mkdirs (c # cs) (Dir r es) =
     (case map_of es c of
        None \<Rightarrow> map_option (\<lambda>ch. Dir r (insort_key fst (c, ch) es)) (mkdirs cs (Dir True []))
      | Some ch \<Rightarrow> map_option (\<lambda>ch'. Dir r (AList.update c ch' es)) (mkdirs cs ch))"
| "mkdirs (c # cs) n = None"

subsection \<open>The world\<close>

text \<open>
  What the program leaves behind, in order: a line of console output (the text without
  its leading pictograph and final line feed; empty lines are not recorded; \<open>%v\<close> of an
  operating-system error is printed as \<open>error\<close>), an external command (how it was run, its working directory, the
  program and its arguments), a \<open>time.Sleep\<close> in seconds, and the goroutine that deletes
  a file after a delay (it runs beside the pipeline and is only recorded).
\<close>

datatype exec_mode = Output | CombinedOutput | Run | Start

datatype event =
    Print string
  | Exec exec_mode string string "string list"
  | Sleep nat
  | RemoveLater nat string

record Config =
  SourceDir :: string
  TargetDir :: string
  ExtensionFolder :: string
  JavaPath :: string

text \<open>
  \<open>os_exec\<close> answers an external command: given the program, its arguments, its
  working directory, everything that happened so far and the file tree, it tells whether
  the command ran without error, the text it printed, and the file tree it leaves.
  \<open>stdin\<close> holds the lines the operator will type, one per read (a terminal hands a
  reader one line at a time); when they are used up a read returns the empty string, as
  at end of input. \<open>config_file\<close> is what \<open>sfdeploy_config.json\<close> decodes to, \<open>None\<close>
  when it cannot be read or is not JSON. \<open>glob_other\<close> answers \<open>filepath.Glob\<close> for the
  patterns with a character class or an escape, which are not interpreted here.
  \<open>smartFoxCmdPid\<close> is the program's global variable.
\<close>

record world =
  windows :: bool
  cwd :: "string list"
  java_home :: string
  look_path :: "string \<Rightarrow> string option"
  user_home :: "string option"
  tree :: node
  stdin :: "string list"
  config_file :: "Config option"
  config_writable :: bool
  os_exec :: "string \<Rightarrow> string list \<Rightarrow> string \<Rightarrow> event list \<Rightarrow> node \<Rightarrow> bool \<times> string \<times> node"
  glob_other :: "string \<Rightarrow> string list"
  events :: "event list"
  smartFoxCmdPid :: string

definition println :: "string \<Rightarrow> world \<Rightarrow> world" where
  "println msg w = w\<lparr>events := events w @ [Print msg]\<rparr>"

definition sleep :: "nat \<Rightarrow> world \<Rightarrow> world" where
  "sleep secs w = w\<lparr>events := events w @ [Sleep secs]\<rparr>"

text \<open>\<open>exec.Command(prog, args...)\<close> with \<open>cmd.Dir = dir\<close>, run in the given mode. The
  result is \<open>err == nil\<close> and the output.\<close>

definition exec_command :: "exec_mode \<Rightarrow> string \<Rightarrow> string \<Rightarrow> string list \<Rightarrow> world \<Rightarrow> (bool \<times> string) \<times> world" where
  "exec_command mode dir prog args w =
     (case os_exec w prog args dir (events w) (tree w) of
        (ok, out, t) \<Rightarrow> ((ok, out), w\<lparr>tree := t, events := events w @ [Exec mode dir prog args]\<rparr>))"

text \<open>\<open>reader.ReadString('\n')\<close>, the error ignored as the program does.\<close>

definition readString :: "world \<Rightarrow> string \<times> world" where
  "readString w = (case stdin w of [] \<Rightarrow> ([], w) | l # ls \<Rightarrow> (l, w\<lparr>stdin := ls\<rparr>))"

subsection \<open>File operations (\<open>os\<close>)\<close>

definition walk_step :: "bool \<Rightarrow> string list \<Rightarrow> string \<Rightarrow> string list" where
  "walk_step win dir e =
     (if e = [] \<or> e = ''.'' then dir
      else if e = ''..'' then (if win \<and> length dir \<le> 1 then dir else butlast dir)
      else dir @ [e])"

text \<open>The place in the tree a path names: from the root when the path starts with a
  separator (on Windows: the root of the current drive) or with a drive, from the
  working directory otherwise.\<close>

definition resolve :: "world \<Rightarrow> string \<Rightarrow> string list" where
  "resolve w p =
     (let win = windows w; v = volume_len win p;
          start = (if v = 2 then [take 2 p]
                   else if p \<noteq> [] \<and> isPathSeparator win (hd p)
                        then (if win then take 1 (cwd w) else [])
                   else cwd w)
      in foldl (walk_step win) start (path_elems win (drop v p)))"

definition stat :: "world \<Rightarrow> string \<Rightarrow> stat_result" where
  "stat w p = (if p = [] then NotExist else lookup (tree w) (resolve w p))"

text \<open>The operations return \<open>err == nil\<close>.\<close>

definition os_remove :: "string \<Rightarrow> world \<Rightarrow> bool \<times> world" where
  "os_remove p w =
     (if p = [] then (False, w)
      else case remove_at (resolve w p) (tree w) of
             None \<Rightarrow> (False, w)
           | Some t \<Rightarrow> (True, w\<lparr>tree := t\<rparr>))"

definition os_mkdirAll :: "string \<Rightarrow> world \<Rightarrow> bool \<times> world" where
  "os_mkdirAll p w =
     (if p = [] then (False, w)
      else case mkdirs (resolve w p) (tree w) of
             None \<Rightarrow> (False, w)
           | Some t \<Rightarrow> (True, w\<lparr>tree := t\<rparr>))"

definition os_writeFile :: "string \<Rightarrow> string \<Rightarrow> world \<Rightarrow> bool \<times> world" where
  "os_writeFile p d w =
     (if p = [] then (False, w)
      else case create_at (resolve w p) d (tree w) of
             None \<Rightarrow> (False, w)
           | Some t \<Rightarrow> (True, w\<lparr>tree := t\<rparr>))"

subsection \<open>\<open>filepath.Walk\<close> and \<open>filepath.Glob\<close>\<close>

text \<open>
  The callback of a walk gets the path, \<open>info.Name()\<close>, whether \<open>err\<close> is set, and its
  own state (the variables it captures); it returns \<open>nil\<close> (\<open>WalkNext\<close>) or
  \<open>filepath.SkipDir\<close>. As in Go, a directory is reported before its entries, with the
  error of listing it; an entry that cannot be examined is reported with its error;
  \<open>SkipDir\<close> from a directory skips its entries, from a file the rest of the directory
  that holds it.

  The walk goes through the tree as it was when the walk began. The callbacks of this
  program change the tree only by removing the entry they were called for, which changes
  nothing of what is visited after it.
\<close>

datatype walk_ctl = WalkNext | SkipDir

fun walk :: "bool \<Rightarrow> (string \<Rightarrow> string \<Rightarrow> bool \<Rightarrow> 's \<Rightarrow> walk_ctl \<times> 's) \<Rightarrow> string \<Rightarrow> string \<Rightarrow> node \<Rightarrow> 's \<Rightarrow> walk_ctl \<times> 's"
and walk_names :: "bool \<Rightarrow> (string \<Rightarrow> string \<Rightarrow> bool \<Rightarrow> 's \<Rightarrow> walk_ctl \<times> 's) \<Rightarrow> string \<Rightarrow> (string \<times> node) list \<Rightarrow> 's \<Rightarrow> walk_ctl \<times> 's"
where
  "walk win fn path nm (File l d) s = fn path nm False s"
| "walk win fn path nm Denied s = fn path nm True s"
| "walk win fn path nm (Dir r es) s =
     (case fn path nm (\<not> r) s of
        (SkipDir, s1) \<Rightarrow> (SkipDir, s1)
      | (WalkNext, s1) \<Rightarrow> if \<not> r then (WalkNext, s1) else walk_names win fn path es s1)"
| "walk_names win fn path [] s = (WalkNext, s)"
| "walk_names win fn path ((n, ch) # es) s =
     (case walk win fn (path_join win [path, n]) n ch s of
        (SkipDir, s1) \<Rightarrow>
          (case ch of File l d \<Rightarrow> (SkipDir, s1) | other \<Rightarrow> walk_names win fn path es s1)
      | (WalkNext, s1) \<Rightarrow> walk_names win fn path es s1)"

definition filepath_Walk :: "world \<Rightarrow> string \<Rightarrow> (string \<Rightarrow> string \<Rightarrow> bool \<Rightarrow> 's \<Rightarrow> walk_ctl \<times> 's) \<Rightarrow> 's \<Rightarrow> 's" where
  "filepath_Walk w root fn s =
     (case stat w root of
        Found n \<Rightarrow> snd (walk (windows w) fn root (path_base (windows w) root) n s)
      | other \<Rightarrow> snd (fn root [] True s))"

text \<open>\<open>filepath.Match\<close> for patterns of literal bytes, \<open>*\<close> and \<open>?\<close>.\<close>

fun match :: "bool \<Rightarrow> string \<Rightarrow> string \<Rightarrow> bool" where
  "match win [] name = (name = [])"
| "match win (p # ps) name =
     (if p = CHR ''*'' then
        match win ps name \<or>
        (case name of [] \<Rightarrow> False | c # cs \<Rightarrow> c \<noteq> separator win \<and> match win (p # ps) cs)
      else
        (case name of
           [] \<Rightarrow> False
         | c # cs \<Rightarrow> (if p = CHR ''?'' then c \<noteq> separator win else c = p) \<and> match win ps cs))"

definition hasMeta :: "bool \<Rightarrow> string \<Rightarrow> bool" where
  "hasMeta win p = list_ex (\<lambda>c. c \<in> set (if win then ''*?['' else ''*?['' @ [bslash])) p"

definition plain_pattern :: "bool \<Rightarrow> string \<Rightarrow> bool" where
  "plain_pattern win p = (\<not> list_ex (\<lambda>c. c = CHR ''['' \<or> (\<not> win \<and> c = bslash)) p)"

definition cleanGlobPath :: "bool \<Rightarrow> string \<Rightarrow> string" where
  "cleanGlobPath win d =
     (let v = volume_len win d in
      if d = [] then ''.''
      else if v + 1 = length d \<and> isPathSeparator win (last d) then d
      else if win \<and> v = length d \<and> length d = 2 then d @ ''.''
      else butlast d)"

text \<open>Go's \<open>glob(dir, pattern, matches)\<close>: the entries of \<open>dir\<close> whose names match, added
  to \<open>matches\<close>; nothing when \<open>dir\<close> is not a directory that can be listed.\<close>

definition glob_dir :: "world \<Rightarrow> string \<Rightarrow> string \<Rightarrow> string list \<Rightarrow> string list" where
  "glob_dir w dir pat matches =
     (case stat w dir of
        Found (Dir True es) \<Rightarrow>
          matches @ map (\<lambda>n. path_join (windows w) [dir, n]) (filter (match (windows w) pat) (map fst es))
      | other \<Rightarrow> matches)"

text \<open>\<open>filepath.Glob\<close>, the error dropped as every caller drops it. The directory part
  of a pattern is a proper prefix of it, which is what ends the recursion.\<close>

function glob :: "world \<Rightarrow> string \<Rightarrow> string list" where
  "glob w pattern =
     (if \<not> plain_pattern (windows w) pattern then glob_other w pattern
      else if \<not> hasMeta (windows w) pattern then
        (case stat w pattern of Found n \<Rightarrow> [pattern] | other \<Rightarrow> [])
      else if \<not> hasMeta (windows w)
                 (drop (volume_len (windows w) pattern)
                    (cleanGlobPath (windows w) (fst (path_split (windows w) pattern)))) then
        glob_dir w (cleanGlobPath (windows w) (fst (path_split (windows w) pattern)))
          (snd (path_split (windows w) pattern)) []
      else if length (cleanGlobPath (windows w) (fst (path_split (windows w) pattern))) < length pattern then
        foldl (\<lambda>m d. glob_dir w d (snd (path_split (windows w) pattern)) m) []
          (glob w (cleanGlobPath (windows w) (fst (path_split (windows w) pattern))))
      else [])"
  by pat_completeness auto
termination
  by (relation "measure (\<lambda>(w, p). length p)") auto

declare glob.simps [simp del]

subsection \<open>Configuration and validation\<close>

text \<open>\<open>loadConfig\<close> and \<open>saveConfig\<close>. A failed write goes unnoticed, as in the source.
  (\<open>Config\<close> in \<open>config.go\<close> has two more fields, \<open>JsonSourceDir\<close> and
  \<open>DeployJsonFiles\<close>, which none of the functions here reads or sets.)\<close>

definition loadConfig :: "world \<Rightarrow> Config \<times> bool" where
  "loadConfig w =
     (case config_file w of
        None \<Rightarrow> (\<lparr>SourceDir = [], TargetDir = [], ExtensionFolder = [], JavaPath = []\<rparr>, False)
      | Some config \<Rightarrow> (config, True))"

definition saveConfig :: "Config \<Rightarrow> world \<Rightarrow> world" where
  "saveConfig config w = (if config_writable w then w\<lparr>config_file := Some config\<rparr> else w)"

partial_function (option) askYesNo :: "string \<Rightarrow> world \<Rightarrow> (bool \<times> world) option" where
  "askYesNo prompt w =
     (case readString (println prompt w) of
        (line, w1) \<Rightarrow>
          let response = toLower (trimSpace line) in
          if response = ''y'' \<or> response = ''yes'' then Some (True, w1)
          else if response = ''n'' \<or> response = ''no'' then Some (False, w1)
          else askYesNo prompt (println (''Please enter 'y' or 'n'' @ [CHR 0x27]) w1))"

declare askYesNo.simps [code]

definition hasJavaFiles_fn :: "string \<Rightarrow> string \<Rightarrow> bool \<Rightarrow> bool \<Rightarrow> walk_ctl \<times> bool" where
  "hasJavaFiles_fn path name err found =
     (if err then (WalkNext, found)
      else if hasSuffix (toLower name) ''.java'' then (SkipDir, True)
      else (WalkNext, found))"

definition hasJavaFiles :: "world \<Rightarrow> string \<Rightarrow> bool" where
  "hasJavaFiles w dir = filepath_Walk w dir hasJavaFiles_fn False"

definition validateSourceDir :: "world \<Rightarrow> string \<Rightarrow> bool" where
  "validateSourceDir w dir =
     (if stat w dir = NotExist then False
      else let srcDir = path_join (windows w) [dir, ''src''] in
           if stat w srcDir = NotExist then False
           else hasJavaFiles w srcDir)"

definition validateTargetDir :: "string \<Rightarrow> world \<Rightarrow> bool \<times> world" where
  "validateTargetDir dir w =
     (let sfsDir = path_join (windows w) [dir, ''SFS2X''] in
      if stat w sfsDir = NotExist then (False, w)
      else let startScript = path_join (windows w) [sfsDir, ''sfs2x.bat''] in
      if stat w startScript = NotExist then (False, w)
      else let libDir = path_join (windows w) [sfsDir, ''lib''];
               sfs2xJar = path_join (windows w) [libDir, ''sfs2x.jar''];
               sfs2xCoreJar = path_join (windows w) [libDir, ''sfs2x-core.jar''];
               w1 = (if stat w sfs2xJar = NotExist
                     then println (''Warning: sfs2x.jar not found at '' @ sfs2xJar) w else w);
               w2 = (if stat w1 sfs2xCoreJar = NotExist
                     then println (''Warning: sfs2x-core.jar not found at '' @ sfs2xCoreJar) w1 else w1)
           in (True, w2))"

subsection \<open>Locating Java 11\<close>

definition isJava11 :: "string \<Rightarrow> world \<Rightarrow> bool \<times> world" where
  "isJava11 javacPath w =
     (case exec_command CombinedOutput [] javacPath [''-version''] w of
        ((ok, output), w1) \<Rightarrow>
          if \<not> ok then (False, w1)
          else (contains output ''11.'' \<or> contains output ''javac 11'', w1))"

definition exe_suffix :: "world \<Rightarrow> string" where
  "exe_suffix w = (if windows w then ''.exe'' else [])"

definition winpath :: "string list \<Rightarrow> string" where
  "winpath elems = join_with [bslash] elems"

definition java_commonPaths :: "string list" where
  "java_commonPaths =
     [winpath [''C:'', ''Program Files'', ''Eclipse Adoptium'', ''jdk-11*'', ''bin'', ''javac.exe''],
      winpath [''C:'', ''Program Files'', ''Java'', ''jdk-11*'', ''bin'', ''javac.exe''],
      winpath [''C:'', ''Program Files'', ''OpenJDK'', ''jdk-11*'', ''bin'', ''javac.exe''],
      winpath [''C:'', ''Program Files (x86)'', ''Eclipse Adoptium'', ''jdk-11*'', ''bin'', ''javac.exe'']]"

text \<open>The inner loop of the third strategy, over the matches of one pattern, and the
  outer loop over the patterns. \<open>Some dir\<close> is the \<open>return\<close> inside the loop.\<close>

fun findJava11_matches :: "string list \<Rightarrow> world \<Rightarrow> string option \<times> world" where
  "findJava11_matches [] w = (None, w)"
| "findJava11_matches (path # rest) w =
     (case stat w path of
        Found n \<Rightarrow>
          (case isJava11 path w of
             (True, w1) \<Rightarrow> (Some (path_dir (windows w) path), w1)
           | (False, w1) \<Rightarrow> findJava11_matches rest w1)
      | other \<Rightarrow> findJava11_matches rest w)"

fun findJava11_patterns :: "string list \<Rightarrow> world \<Rightarrow> string option \<times> world" where
  "findJava11_patterns [] w = (None, w)"
| "findJava11_patterns (pattern # rest) w =
     (case findJava11_matches (glob w pattern) w of
        (Some dir, w1) \<Rightarrow> (Some dir, w1)
      | (None, w1) \<Rightarrow> findJava11_patterns rest w1)"

text \<open>The four strategies of \<open>findJava11Path\<close>, each a block of the function in the
  source; a block that does not return hands over to the next.\<close>

definition findJava11_home :: "world \<Rightarrow> string option \<times> world" where
  "findJava11_home w =
     (if java_home w \<noteq> [] then
        (let javacPath = path_join (windows w) [java_home w, ''bin'', ''javac''] @ exe_suffix w in
         case stat w javacPath of
           Found n \<Rightarrow>
             (case isJava11 javacPath w of
                (True, w1) \<Rightarrow> (Some (path_dir (windows w) javacPath), w1)
              | (False, w1) \<Rightarrow> (None, w1))
         | other \<Rightarrow> (None, w))
      else (None, w))"

definition findJava11_lookPath :: "world \<Rightarrow> string option \<times> world" where
  "findJava11_lookPath w =
     (case look_path w ''javac'' of
        Some path \<Rightarrow>
          (case isJava11 path w of
             (True, w1) \<Rightarrow> (Some (path_dir (windows w) path), w1)
           | (False, w1) \<Rightarrow> (None, w1))
      | None \<Rightarrow> (None, w))"

definition findJava11_common :: "world \<Rightarrow> string option \<times> world" where
  "findJava11_common w =
     (if windows w then findJava11_patterns java_commonPaths w else (None, w))"

definition findJava11_ask :: "world \<Rightarrow> string \<times> world" where
  "findJava11_ask w =
     (case readString
             (println ''Please enter the path to Java 11 bin directory (or press Enter to skip): ''
               (println ''Java 11 not found automatically'' w)) of
        (line, w1) \<Rightarrow>
          let userPath = trimSpace line in
          if userPath \<noteq> [] then
            (let javacPath = path_join (windows w) [userPath, ''javac''] @ exe_suffix w in
             case stat w1 javacPath of
               Found n \<Rightarrow> (userPath, w1)
             | other \<Rightarrow> ([], w1))
          else ([], w1))"

definition findJava11Path :: "world \<Rightarrow> string \<times> world" where
  "findJava11Path w =
     (case findJava11_home w of
        (Some dir, w1) \<Rightarrow> (dir, w1)
      | (None, w1) \<Rightarrow>
          (case findJava11_lookPath w1 of
             (Some dir, w2) \<Rightarrow> (dir, w2)
           | (None, w2) \<Rightarrow>
               (case findJava11_common w2 of
                  (Some dir, w3) \<Rightarrow> (dir, w3)
                | (None, w3) \<Rightarrow> findJava11_ask w3)))"

subsection \<open>Locating the server installation\<close>

text \<open>\<open>for _, path := range paths { if validateTargetDir(path) { return path } }\<close>\<close>

fun first_valid_target :: "string list \<Rightarrow> world \<Rightarrow> string option \<times> world" where
  "first_valid_target [] w = (None, w)"
| "first_valid_target (path # rest) w =
     (case validateTargetDir path w of
        (True, w1) \<Rightarrow> (Some path, w1)
      | (False, w1) \<Rightarrow> first_valid_target rest w1)"

definition smartfox_commonPaths :: "world \<Rightarrow> string list" where
  "smartfox_commonPaths w =
     [winpath [''C:'', ''Users'', ''Slint'', ''SmartFoxServer_2X''],
      winpath [''C:'', ''SmartFoxServer_2X''],
      winpath [''C:'', ''Program Files'', ''SmartFoxServer_2X''],
      winpath [''C:'', ''Program Files (x86)'', ''SmartFoxServer_2X'']] @
     (case user_home w of
        Some userHome \<Rightarrow>
          [path_join (windows w) [userHome, ''SmartFoxServer_2X''],
           path_join (windows w) [userHome, ''SmartFoxServer''],
           path_join (windows w) [userHome, ''Desktop'', ''SmartFoxServer_2X''],
           path_join (windows w) [userHome, ''Downloads'', ''SmartFoxServer_2X'']]
      | None \<Rightarrow> [])"

text \<open>The paths the nested loops over drives and folder names try, in their order.\<close>

definition smartfox_drivePaths :: "world \<Rightarrow> string list" where
  "smartfox_drivePaths w =
     concat (map (\<lambda>drive.
       concat (map (\<lambda>pattern.
         [path_join (windows w) [drive @ [bslash], pattern],
          path_join (windows w) [drive @ [bslash] @ ''Program Files'', pattern],
          path_join (windows w) [drive @ [bslash] @ ''Program Files (x86)'', pattern]])
         [''SmartFoxServer_2X'', ''SmartFoxServer'', ''SFS2X'']))
       [''C:'', ''D:'', ''E:'', ''F:''])"

definition findSmartFoxServer :: "world \<Rightarrow> string \<times> world" where
  "findSmartFoxServer w =
     (case first_valid_target (smartfox_commonPaths w) w of
        (Some path, w1) \<Rightarrow> (path, w1)
      | (None, w1) \<Rightarrow>
          if windows w then
            (case first_valid_target (smartfox_drivePaths w) w1 of
               (Some path, w2) \<Rightarrow> (path, w2)
             | (None, w2) \<Rightarrow> ([], w2))
          else ([], w1))"

subsection \<open>Phase 1: \<open>setupDirectories\<close>\<close>

text \<open>The three \<open>for\<close> loops that prompt until the answer is valid. Each may run for
  ever (at the end of input every read returns the empty string), so each is a partial
  function: \<open>None\<close> is a loop that never exits.\<close>

partial_function (option) enter_source_dir :: "Config \<Rightarrow> world \<Rightarrow> (Config \<times> world) option" where
  "enter_source_dir config w =
     (case readString (println ''Enter source directory (SmartFox project): '' w) of
        (sourceDir, w1) \<Rightarrow>
          let config1 = config\<lparr>SourceDir := trimSpace sourceDir\<rparr> in
          if validateSourceDir w1 (SourceDir config1) then
            Some (config1, println (''Valid source directory: '' @ SourceDir config1) w1)
          else
            enter_source_dir config1
              (println ''   Please ensure the directory contains 'src' folder with .java files''
                (println (''Invalid source directory: '' @ SourceDir config1) w1)))"

declare enter_source_dir.simps [code]

partial_function (option) enter_target_dir :: "Config \<Rightarrow> world \<Rightarrow> (Config \<times> world) option" where
  "enter_target_dir config w =
     (case readString (println ''Enter target directory (SmartFox server): '' w) of
        (targetDir, w1) \<Rightarrow>
          let config1 = config\<lparr>TargetDir := trimSpace targetDir\<rparr> in
          (case validateTargetDir (TargetDir config1) w1 of
             (ok, w2) \<Rightarrow>
               if ok then
                 Some (config1, println (''Valid target directory: '' @ TargetDir config1) w2)
               else
                 enter_target_dir config1
                   (println (''   Please ensure the directory contains 'SFS2X/sfs2x.bat' and 'SFS2X/lib/sfs2x.jar'' @ [CHR 0x27])
                     (println (''Invalid target directory: '' @ TargetDir config1) w2))))"

declare enter_target_dir.simps [code]

definition valid_extension_folder :: "string \<Rightarrow> bool" where
  "valid_extension_folder name =
     (name \<noteq> [] \<and> \<not> contains name '':'' \<and> \<not> contains name [bslash] \<and> \<not> contains name ''/'')"

partial_function (option) enter_extension_folder :: "Config \<Rightarrow> world \<Rightarrow> (Config \<times> world) option" where
  "enter_extension_folder config w =
     (case readString (println ''Enter extension folder name (e.g., SFServer, MyExtension): '' w) of
        (extensionFolder, w1) \<Rightarrow>
          let config1 = config\<lparr>ExtensionFolder := trimSpace extensionFolder\<rparr> in
          if valid_extension_folder (ExtensionFolder config1) then
            Some (config1, println (''Valid extension folder: '' @ ExtensionFolder config1) w1)
          else
            enter_extension_folder config1
              (println ''   Please enter a simple folder name (no paths, colons, or slashes)''
                (println ''Invalid extension folder name'' w1)))"

declare enter_extension_folder.simps [code]

text \<open>The auto-detection block between the first two loops.\<close>

definition detect_target :: "Config \<Rightarrow> world \<Rightarrow> (Config \<times> world) option" where
  "detect_target config w =
     (case findSmartFoxServer w of
        (autoDetectedTarget, w1) \<Rightarrow>
          if autoDetectedTarget \<noteq> [] then
            (case askYesNo ''Do you want to use this SmartFox server installation? (y/n): ''
                    (println (''Auto-detected SmartFox server: '' @ autoDetectedTarget) w1) of
               None \<Rightarrow> None
             | Some (True, w2) \<Rightarrow>
                 Some (config\<lparr>TargetDir := autoDetectedTarget\<rparr>,
                       println (''Using auto-detected target directory: '' @ autoDetectedTarget) w2)
             | Some (False, w2) \<Rightarrow> Some (config\<lparr>TargetDir := []\<rparr>, w2))
          else Some (config, w1))"

text \<open>The end of the function, from the extension loop on: Java is looked for and the
  configuration is saved.\<close>

definition finish_setup :: "Config \<Rightarrow> world \<Rightarrow> (bool \<times> Config \<times> world) option" where
  "finish_setup config w =
     (case enter_extension_folder config w of
        None \<Rightarrow> None
      | Some (config1, w1) \<Rightarrow>
          (case findJava11Path w1 of
             (javaPath, w2) \<Rightarrow>
               let config2 = config1\<lparr>JavaPath := javaPath\<rparr> in
               if JavaPath config2 = [] then Some (False, config2, println ''Java 11 not found'' w2)
               else Some (True, config2,
                      println ''Configuration saved for next time''
                        (saveConfig config2 (println (''Java 11: '' @ JavaPath config2) w2)))))"

text \<open>Everything after the saved-configuration block: the interactive collection.\<close>

definition collect_config :: "Config \<Rightarrow> world \<Rightarrow> (bool \<times> Config \<times> world) option" where
  "collect_config config w =
     (case enter_source_dir config w of
        None \<Rightarrow> None
      | Some (config1, w1) \<Rightarrow>
          (case detect_target config1 w1 of
             None \<Rightarrow> None
           | Some (config2, w2) \<Rightarrow>
               if TargetDir config2 = [] then
                 (case enter_target_dir config2 w2 of
                    None \<Rightarrow> None
                  | Some (config3, w3) \<Rightarrow> finish_setup config3 w3)
               else finish_setup config2 w2))"

text \<open>\<open>validateSourceDir(config.SourceDir) && validateTargetDir(config.TargetDir)\<close>: the
  target is examined only when the source is valid.\<close>

definition saved_paths_valid :: "Config \<Rightarrow> world \<Rightarrow> bool \<times> world" where
  "saved_paths_valid config w =
     (if validateSourceDir w (SourceDir config) then validateTargetDir (TargetDir config) w
      else (False, w))"

text \<open>\<open>setupDirectories\<close> of the single-file version: the operator is asked whether to
  reuse a saved configuration.\<close>

definition setupDirectories :: "Config \<Rightarrow> world \<Rightarrow> (bool \<times> Config \<times> world) option" where
  "setupDirectories config w0 =
     (let w = println ''Phase 1: Directory Setup'' w0 in
      case loadConfig w of
        (savedConfig, True) \<Rightarrow>
          (case askYesNo ''Do you want to use the previous configuration? (y/n): ''
                  (println (''   Extension: '' @ ExtensionFolder savedConfig)
                    (println (''   Target: '' @ TargetDir savedConfig)
                      (println (''   Source: '' @ SourceDir savedConfig)
                        (println ''Found previous configuration:'' w)))) of
             None \<Rightarrow> None
           | Some (True, w1) \<Rightarrow>
               (case saved_paths_valid savedConfig w1 of
                  (valid, w2) \<Rightarrow>
                    if valid then
                      (case findJava11Path w2 of
                         (javaPath, w3) \<Rightarrow>
                           if javaPath = [] then
                             Some (False, savedConfig\<lparr>JavaPath := javaPath\<rparr>,
                                   println ''Java 11 not found'' w3)
                           else
                             Some (True, savedConfig\<lparr>JavaPath := javaPath\<rparr>,
                                   println (''Java 11: '' @ javaPath)
                                     (println ''Using previous configuration'' w3)))
                    else
                      collect_config savedConfig
                        (println ''Previous paths are no longer valid, please enter new ones'' w2))
           | Some (False, w1) \<Rightarrow> collect_config config w1)
      | (savedConfig, False) \<Rightarrow> collect_config config w)"

text \<open>\<open>setupDirectories\<close> of \<open>config.go\<close>: a saved configuration whose paths are valid is
  reused without asking.\<close>

definition setupDirectories_config_go :: "Config \<Rightarrow> world \<Rightarrow> (bool \<times> Config \<times> world) option" where
  "setupDirectories_config_go config w0 =
     (let w = println ''Phase 1: Directory Setup'' w0 in
      case loadConfig w of
        (savedConfig, True) \<Rightarrow>
          (case saved_paths_valid savedConfig w of
             (valid, w2) \<Rightarrow>
               if valid then
                 (case findJava11Path w2 of
                    (javaPath, w3) \<Rightarrow>
                      if javaPath = [] then
                        Some (False, savedConfig\<lparr>JavaPath := javaPath\<rparr>,
                              println ''Java 11 not found'' w3)
                      else
                        Some (True, savedConfig\<lparr>JavaPath := javaPath\<rparr>,
                              println (''Java 11: '' @ javaPath)
                                (println (''Extension: '' @ ExtensionFolder savedConfig)
                                  (println (''Target: '' @ TargetDir savedConfig)
                                    (println (''Source: '' @ SourceDir savedConfig) w3)))))
               else
                 collect_config savedConfig
                   (println ''Config paths are no longer valid, please enter new ones'' w2))
      | (savedConfig, False) \<Rightarrow> collect_config config w)"

subsection \<open>Phase 2: \<open>buildProject\<close>\<close>

definition cleanClassFiles_fn :: "string \<Rightarrow> string \<Rightarrow> bool \<Rightarrow> world \<Rightarrow> walk_ctl \<times> world" where
  "cleanClassFiles_fn path name err w =
     (if err then (WalkNext, w)
      else if hasSuffix (toLower name) ''.class'' then (WalkNext, snd (os_remove path w))
      else (WalkNext, w))"

definition cleanClassFiles :: "string \<Rightarrow> world \<Rightarrow> world" where
  "cleanClassFiles srcDir w = filepath_Walk w srcDir cleanClassFiles_fn w"

definition findJavaFiles_fn :: "string \<Rightarrow> string \<Rightarrow> bool \<Rightarrow> string list \<Rightarrow> walk_ctl \<times> string list" where
  "findJavaFiles_fn path name err javaFiles =
     (if err then (WalkNext, javaFiles)
      else if hasSuffix (toLower name) ''.java'' then (WalkNext, javaFiles @ [path])
      else (WalkNext, javaFiles))"

definition findJavaFiles :: "world \<Rightarrow> string \<Rightarrow> string list" where
  "findJavaFiles w srcDir = filepath_Walk w srcDir findJavaFiles_fn []"

definition requiredJars :: "string list" where
  "requiredJars = [''sfs2x.jar'', ''sfs2x-core.jar'', ''sfs2x-api.jar'', ''slf4j-api*.jar'', ''logback*.jar'']"

definition buildClasspath :: "string \<Rightarrow> world \<Rightarrow> string \<times> world" where
  "buildClasspath serverLibDir w =
     (let jarFiles = glob w (path_join (windows w) [serverLibDir, ''*.jar'']);
          classpathParts =
            (if length jarFiles = 0
             then concat (map (\<lambda>jarPattern. glob w (path_join (windows w) [serverLibDir, jarPattern]))
                           requiredJars)
             else jarFiles)
      in if length classpathParts = 0
         then (''.'', println (''Warning: No JAR files found in '' @ serverLibDir) w)
         else (join_with (if windows w then '';'' else '':'') classpathParts, w))"

definition buildProject :: "Config \<Rightarrow> world \<Rightarrow> bool \<times> world" where
  "buildProject config w0 =
     (let w1 = println ''Phase 2: Building Project'' w0;
          srcDir = path_join (windows w0) [SourceDir config, ''src''];
          serverLibDir = path_join (windows w0) [TargetDir config, ''SFS2X'', ''lib''];
          w2 = cleanClassFiles srcDir (println ''Cleaning old class files...'' w1);
          w3 = println ''Compiling Java files...'' w2;
          javaFiles = findJavaFiles w3 srcDir
      in if length javaFiles = 0 then (False, println ''No Java files found'' w3)
      else
        (case buildClasspath serverLibDir
                (println (''Found '' @ decimal (length javaFiles) @ '' Java files'') w3) of
           (classpath, w4) \<Rightarrow>
             let javacPath = path_join (windows w0) [JavaPath config, ''javac''] @ exe_suffix w0;
                 args = [''-cp'', classpath, ''-d'', srcDir] @ javaFiles
             in (case exec_command CombinedOutput srcDir javacPath args w4 of
                   ((ok, output), w5) \<Rightarrow>
                     if \<not> ok then (False, println (''Compilation failed: '' @ output) w5)
                     else
                       let w6 = println ''Creating JAR file...'' (println ''Compilation successful'' w5);
                           jarPath = path_join (windows w0) [JavaPath config, ''jar''] @ exe_suffix w0;
                           jarFile = path_join (windows w0) [SourceDir config, ''ServerExtension.jar'']
                       in (case exec_command CombinedOutput srcDir jarPath [''cf'', jarFile, ''.''] w6 of
                             ((ok2, output2), w7) \<Rightarrow>
                               if \<not> ok2 then (False, println (''JAR creation failed: '' @ output2) w7)
                               else (True, println ''JAR file created successfully'' w7)))))"

subsection \<open>Stopping the running server\<close>

text \<open>The loop of \<open>killPort9933\<close> over the lines of the \<open>netstat\<close> listing.\<close>

fun killPort9933_lines :: "string list \<Rightarrow> world \<Rightarrow> world" where
  "killPort9933_lines [] w = w"
| "killPort9933_lines (line # rest) w =
     (if contains line '':9933'' \<and> contains line ''LISTENING'' then
        (let parts = strings_Fields line in
         if length parts \<ge> 5 then
           (let pid = last parts in
            killPort9933_lines rest
              (snd (exec_command Run [] ''taskkill'' [''/PID'', pid, ''/F'']
                     (println (''Killing process '' @ pid @ '' using port 9933'') w))))
         else killPort9933_lines rest w)
      else killPort9933_lines rest w)"

definition killPort9933 :: "world \<Rightarrow> world" where
  "killPort9933 w =
     (if \<not> windows w then w
      else case exec_command Output [] ''netstat'' [''-ano''] w of
             ((ok, output), w1) \<Rightarrow>
               if \<not> ok then w1
               else killPort9933_lines (split_at (CHR 0x0A) output) w1)"

text \<open>\<open>findAndStoreSmartFoxCmdWindow\<close>. The inner loop goes over the lines of a
  \<open>netstat\<close> listing for one Java process, the outer loop over the lines of the \<open>wmic\<close>
  listing. The flag returned is \<open>True\<close> when the function has returned from inside
  the loops.\<close>

fun findCmd_netLines :: "string \<Rightarrow> string \<Rightarrow> string list \<Rightarrow> world \<Rightarrow> bool \<times> world" where
  "findCmd_netLines javaPid parentPid [] w = (False, w)"
| "findCmd_netLines javaPid parentPid (netLine # rest) w =
     (if contains netLine '':9933'' \<and> contains netLine ''LISTENING'' \<and> contains netLine javaPid then
        (case exec_command Output [] ''tasklist''
                [''/fi'', ''PID eq '' @ parentPid, ''/fo'', ''csv'']
                (println (''Found SmartFox Java process PID: '' @ javaPid @ '' with parent: '' @ parentPid) w) of
           ((ok, parentOutput), w1) \<Rightarrow>
             if ok \<and> contains parentOutput ''cmd.exe'' then
               (True, println (''Found SmartFox CMD window PID: '' @ parentPid @ '' (parent of Java process)'')
                        (w1\<lparr>smartFoxCmdPid := parentPid\<rparr>))
             else (False, w1))
      else findCmd_netLines javaPid parentPid rest w)"

fun findCmd_javaLines :: "string list \<Rightarrow> world \<Rightarrow> bool \<times> world" where
  "findCmd_javaLines [] w = (False, w)"
| "findCmd_javaLines (javaLine # rest) w =
     (if contains javaLine ''java.exe'' then
        (let w1 = println (''Found Java process: '' @ trimSpace javaLine) w;
             parts = split_at (CHR '','') javaLine
         in if length parts \<ge> 3 then
              (let javaPid = trimSpace (parts ! (length parts - 1));
                   parentPid = trimSpace (parts ! (length parts - 2))
               in case exec_command Output [] ''netstat'' [''-ano''] w1 of
                    ((ok, netstatOutput), w2) \<Rightarrow>
                      if ok then
                        (case findCmd_netLines javaPid parentPid (split_at (CHR 0x0A) netstatOutput) w2 of
                           (True, w3) \<Rightarrow> (True, w3)
                         | (False, w3) \<Rightarrow> findCmd_javaLines rest w3)
                      else findCmd_javaLines rest w2)
            else findCmd_javaLines rest w1)
      else findCmd_javaLines rest w)"

definition findAndStoreSmartFoxCmdWindow :: "world \<Rightarrow> world" where
  "findAndStoreSmartFoxCmdWindow w =
     (if \<not> windows w then w
      else case exec_command Output [] ''wmic''
                  [''process'', ''where'', ''name='java.exe'' @ [CHR 0x27], ''get'',
                   ''ProcessId,ParentProcessId,CommandLine'', ''/format:csv'']
                  (println ''Searching all CMD windows for SmartFox...'' w) of
             ((ok, javaOutput), w1) \<Rightarrow>
               (case (if ok then findCmd_javaLines (split_at (CHR 0x0A) javaOutput) w1 else (False, w1)) of
                  (True, w2) \<Rightarrow> w2
                | (False, w2) \<Rightarrow>
                    if smartFoxCmdPid w2 = []
                    then println ''Could not find SmartFox CMD window - will create new one'' w2
                    else w2))"

subsection \<open>Phase 3: \<open>deployProject\<close>\<close>

text \<open>\<open>copyFile\<close>: \<open>os.Open\<close> the source, \<open>os.Create\<close> the destination (which empties
  it), then copy what the source holds at that moment.\<close>

definition copyFile :: "string \<Rightarrow> string \<Rightarrow> world \<Rightarrow> bool \<times> world" where
  "copyFile src dst w =
     (case stat w src of
        Found sourceFile \<Rightarrow>
          (case os_writeFile dst [] w of
             (False, w1) \<Rightarrow> (False, w1)
           | (True, w1) \<Rightarrow>
               (case stat w1 src of
                  Found (File l d) \<Rightarrow> os_writeFile dst d w1
                | other \<Rightarrow> (False, w1)))
      | other \<Rightarrow> (False, w))"

text \<open>The loop that removes the archives found in the target extension directory; a
  removal that fails is reported and the loop goes on.\<close>

fun remove_old_jars :: "string list \<Rightarrow> world \<Rightarrow> world" where
  "remove_old_jars [] w = w"
| "remove_old_jars (file # rest) w =
     (case os_remove file w of
        (True, w1) \<Rightarrow> remove_old_jars rest w1
      | (False, w1) \<Rightarrow>
          remove_old_jars rest (println (''Warning: Could not remove '' @ file @ '': error'') w1))"

definition deployProject :: "Config \<Rightarrow> world \<Rightarrow> bool \<times> world" where
  "deployProject config w0 =
     (let w1 = println ''Phase 3: Deploying Project'' w0;
          targetExtDir = path_join (windows w0)
                           [TargetDir config, ''SFS2X'', ''extensions'', ExtensionFolder config]
      in case os_mkdirAll targetExtDir w1 of
           (False, w2) \<Rightarrow> (False, println ''Failed to create target directory: error'' w2)
         | (True, w2) \<Rightarrow>
             let w3 = findAndStoreSmartFoxCmdWindow (println (''Deploying to: '' @ targetExtDir) w2);
                 w4 = killPort9933 (println ''Killing processes on port 9933...'' w3);
                 w5 = sleep 3 (println ''Waiting for file locks to release...'' w4);
                 w6 = println ''Removing old JAR files...'' w5;
                 jarFiles = glob w6 (path_join (windows w0) [targetExtDir, ''*.jar'']);
                 w7 = println ''Copying new JAR file...'' (remove_old_jars jarFiles w6);
                 sourceJar = path_join (windows w0) [SourceDir config, ''ServerExtension.jar''];
                 targetJar = path_join (windows w0) [targetExtDir, ''ServerExtension.jar'']
             in (case copyFile sourceJar targetJar w7 of
                   (False, w8) \<Rightarrow> (False, println ''Failed to copy JAR file: error'' w8)
                 | (True, w8) \<Rightarrow> (True, println ''Deployment successful'' w8)))"

subsection \<open>Phase 5: \<open>cleanupProject\<close>\<close>

text \<open>The callback of the walk carries the counter \<open>classFilesRemoved\<close> with the world.\<close>

definition cleanup_fn :: "string \<Rightarrow> string \<Rightarrow> bool \<Rightarrow> nat \<times> world \<Rightarrow> walk_ctl \<times> nat \<times> world" where
  "cleanup_fn path name err s =
     (case s of
        (classFilesRemoved, w) \<Rightarrow>
          if err then (WalkNext, s)
          else if hasSuffix (toLower name) ''.class'' then
            (case os_remove path w of
               (True, w1) \<Rightarrow> (WalkNext, classFilesRemoved + 1, w1)
             | (False, w1) \<Rightarrow> (WalkNext, classFilesRemoved, w1))
          else (WalkNext, s))"

fun cleanup_jars :: "string list \<Rightarrow> nat \<times> world \<Rightarrow> nat \<times> world" where
  "cleanup_jars [] s = s"
| "cleanup_jars (file # rest) (jarFilesRemoved, w) =
     (case os_remove file w of
        (True, w1) \<Rightarrow>
          cleanup_jars rest
            (jarFilesRemoved + 1, println (''   Removed: '' @ path_base (windows w) file) w1)
      | (False, w1) \<Rightarrow>
          cleanup_jars rest
            (jarFilesRemoved,
             println (''Warning: Could not remove '' @ path_base (windows w) file @ '': error'') w1))"

definition cleanupProject :: "Config \<Rightarrow> world \<Rightarrow> bool \<times> world" where
  "cleanupProject config w0 =
     (let w1 = println ''Phase 5: Cleaning Up Project'' w0;
          srcDir = path_join (windows w0) [SourceDir config, ''src''];
          w2 = println ''Removing .class files from source directory...'' w1
      in case filepath_Walk w2 srcDir cleanup_fn (0, w2) of
           (classFilesRemoved, w3) \<Rightarrow>
             let w4 = println ''Removing JAR files from project root...''
                        (println (''Removed '' @ decimal classFilesRemoved @ '' .class files'') w3);
                 jarFiles = glob w4 (path_join (windows w0) [SourceDir config, ''*.jar''])
             in case cleanup_jars jarFiles (0, w4) of
                  (jarFilesRemoved, w5) \<Rightarrow>
                    (True, println ''Project cleanup completed''
                             (println (''Removed '' @ decimal jarFilesRemoved @ '' JAR files'') w5)))"

subsection \<open>Phase 4: \<open>restartServer\<close>\<close>

text \<open>The block \<open>if smartFoxCmdPid != "" { ... }\<close> at the start of \<open>restartServer\<close>.\<close>

definition close_stored_window :: "world \<Rightarrow> world" where
  "close_stored_window w =
     (if smartFoxCmdPid w \<noteq> [] then
        (case exec_command Output [] ''tasklist''
                [''/fi'', ''PID eq '' @ smartFoxCmdPid w, ''/fo'', ''csv'']
                (println (''Checking if stored CMD window PID '' @ smartFoxCmdPid w @ '' is still alive...'') w) of
           ((ok, checkOutput), w1) \<Rightarrow>
             (if ok \<and> contains checkOutput ''cmd.exe'' then
                println (''Closed old CMD window PID: '' @ smartFoxCmdPid w)
                  (snd (exec_command Run [] ''taskkill'' [''/PID'', smartFoxCmdPid w, ''/F'']
                         (println ''Since we need to see logs, creating new CMD window...''
                           (println ''Found existing SmartFox CMD window'' w1))))
              else w1)\<lparr>smartFoxCmdPid := []\<rparr>)
      else w)"

definition logContent :: "string \<Rightarrow> string \<Rightarrow> string" where
  "logContent sfsDir startScript =
     concat (map (\<lambda>line. line @ [CHR 0x0A])
       [''@echo off'',
        ''title SmartFox Server 2X - Hot Deploy'',
        ''echo.'',
        ''echo ========================================'',
        ''echo   SmartFox Server 2X - Hot Deploy'',
        ''echo   Starting server with logs...'',
        ''echo ========================================'',
        ''echo.'',
        ''cd /d \"'' @ sfsDir @ ''\"'',
        ''call \"'' @ startScript @ ''\"'',
        ''echo.'',
        ''echo ========================================'',
        ''echo   Server stopped. Press any key to close.'',
        ''echo ========================================'',
        ''pause''])"

definition restartServer :: "Config \<Rightarrow> world \<Rightarrow> bool \<times> world" where
  "restartServer config w0 =
     (let w1 = println ''Phase 4: Restarting SmartFox Server'' w0;
          startScript = path_join (windows w0) [TargetDir config, ''SFS2X'', ''sfs2x.bat''];
          w2 = println ''Creating new CMD window for SmartFox server...'' (close_stored_window w1);
          logBat = path_join (windows w0) [TargetDir config, ''sfs_with_logs.bat'']
      in case os_writeFile logBat
                (logContent (path_join (windows w0) [TargetDir config, ''SFS2X'']) startScript) w2 of
           (False, w3) \<Rightarrow> (False, println ''Failed to create log batch file: error'' w3)
         | (True, w3) \<Rightarrow>
             (case exec_command Start (path_dir (windows w0) logBat) ''cmd''
                     [''/c'', ''start'', ''cmd'', ''/k'', logBat] w3 of
                ((ok, out), w4) \<Rightarrow>
                  if \<not> ok then (False, println ''Failed to start server: error'' w4)
                  else
                    (True,
                     println ''Check the new CMD window for server logs and status''
                       (println ''Server started in new CMD window with logs''
                         (w4\<lparr>events := events w4 @ [RemoveLater 5 logBat]\<rparr>)))))"

subsection \<open>\<open>main\<close>\<close>

definition empty_config :: Config where
  "empty_config = \<lparr>SourceDir = [], TargetDir = [], ExtensionFolder = [], JavaPath = []\<rparr>"

text \<open>\<open>main\<close> of the single-file version. \<open>None\<close> is a run that never ends (a prompt
  loop of the setup phase that never gets a valid answer).\<close>

definition main :: "world \<Rightarrow> world option" where
  "main w0 =
     (let w = println ''  SmartFox Hot Deploy CLI Tool'' w0 in
      case setupDirectories empty_config w of
        None \<Rightarrow> None
      | Some (ok1, config, w1) \<Rightarrow>
          if \<not> ok1 then Some w1
          else (case buildProject config w1 of
             (ok2, w2) \<Rightarrow>
               if \<not> ok2 then Some w2
               else (case deployProject config w2 of
                  (ok3, w3) \<Rightarrow>
                    if \<not> ok3 then Some w3
                    else (case restartServer config w3 of
                       (ok4, w4) \<Rightarrow>
                         if \<not> ok4 then Some w4
                         else (case cleanupProject config w4 of
                            (ok5, w5) \<Rightarrow>
                              if \<not> ok5 then Some w5
                              else Some (snd (readString
                                     (println ''Press Enter to exit...''
                                       (println ''Hot deploy completed successfully!'' w5)))))))))"

text \<open>\<open>main\<close> of \<open>main.go\<close>, with the \<open>setupDirectories\<close> of \<open>config.go\<close>. The other four
  handlers are not among the files of that version that are at hand; they are taken from
  the single-file version.\<close>

definition main_go :: "world \<Rightarrow> world option" where
  "main_go w0 =
     (let w = println ''====  SmartFox Hot Deploy CLI Tool ===='' w0 in
      case setupDirectories_config_go empty_config w of
        None \<Rightarrow> None
      | Some (ok1, config, w1) \<Rightarrow>
          if \<not> ok1 then Some w1
          else (case buildProject config w1 of
             (ok2, w2) \<Rightarrow>
               if \<not> ok2 then Some w2
               else (case deployProject config w2 of
                  (ok3, w3) \<Rightarrow>
                    if \<not> ok3 then Some w3
                    else (case restartServer config w3 of
                       (ok4, w4) \<Rightarrow>
                         if \<not> ok4 then Some w4
                         else (case cleanupProject config w4 of
                            (ok5, w5) \<Rightarrow>
                              if \<not> ok5 then Some w5
                              else Some (snd (readString
                                     (println ''Press Enter to exit...''
                                       (println ''Hot deploy completed successfully!'' w5)))))))))"

section \<open>Example machines\<close>

text \<open>A machine with an empty file tree on which no external command works; the examples
  below change the fields they need.\<close>

definition bare_machine :: world where
  "bare_machine =
     \<lparr>windows = True, cwd = [''C:'', ''work''], java_home = [], look_path = (\<lambda>prog. None),
      user_home = None, tree = Dir True [], stdin = [], config_file = None,
      config_writable = True, os_exec = (\<lambda>prog args dir evs t. (False, [], t)),
      glob_other = (\<lambda>pattern. []), events = [], smartFoxCmdPid = []\<rparr>"

text \<open>A \<open>netstat -ano\<close> listing in which one line is listening on port 9933, owned by
  process 4321.\<close>

definition netstat_line_4321 :: string where
  "netstat_line_4321 = ''  TCP    0.0.0.0:9933    0.0.0.0:0    LISTENING    4321'' @ [CHR 0x0D]"

definition netstat_listing :: string where
  "netstat_listing =
     join_with [CHR 0x0A]
       [''Active Connections'' @ [CHR 0x0D],
        ''  Proto  Local Address   Foreign Address   State   PID'' @ [CHR 0x0D],
        ''  TCP    0.0.0.0:445     0.0.0.0:0    LISTENING    4'' @ [CHR 0x0D],
        netstat_line_4321,
        ''  TCP    10.0.0.5:51002  10.0.0.9:9933  ESTABLISHED  777'' @ [CHR 0x0D],
        []]"

definition netstat_exec :: "string \<Rightarrow> string list \<Rightarrow> string \<Rightarrow> event list \<Rightarrow> node \<Rightarrow> bool \<times> string \<times> node" where
  "netstat_exec prog args dir evs t =
     (if prog = ''netstat'' then (True, netstat_listing, t) else (True, [], t))"

definition windows_server_machine :: world where
  "windows_server_machine = bare_machine\<lparr>os_exec := netstat_exec\<rparr>"

definition linux_server_machine :: world where
  "linux_server_machine = bare_machine\<lparr>windows := False, cwd := [''home''], os_exec := netstat_exec\<rparr>"

text \<open>A Windows machine with a stored window identifier that \<open>tasklist\<close> still reports
  as a \<open>cmd.exe\<close> process.\<close>

definition tasklist_exec :: "string \<Rightarrow> string list \<Rightarrow> string \<Rightarrow> event list \<Rightarrow> node \<Rightarrow> bool \<times> string \<times> node" where
  "tasklist_exec prog args dir evs t =
     (if prog = ''tasklist'' then (True, ''\"cmd.exe\",\"900\",\"Console\",\"1\",\"4,120 K\"'', t)
      else (True, [], t))"

definition restart_machine :: world where
  "restart_machine =
     bare_machine\<lparr>tree := Dir True [(''C:'', Dir True [(''sfs'', Dir True [(''SFS2X'', Dir True [])])])],
                  os_exec := tasklist_exec, smartFoxCmdPid := ''900''\<rparr>"

definition restart_config :: Config where
  "restart_config = empty_config\<lparr>TargetDir := winpath [''C:'', ''sfs'']\<rparr>"

text \<open>
  What the walks of the program look for: at any depth below a directory, an entry whose
  name ends in a given extension such as \<open>.java\<close> or \<open>.class\<close>, in any letter case. The
  entry is a file or a directory that can be listed (the callbacks test \<open>info.Name()\<close>
  and never \<open>info.IsDir()\<close>); what lies under a directory that cannot be listed is out of
  reach.
\<close>

definition visible_named :: "string \<Rightarrow> string \<Rightarrow> node \<Rightarrow> bool" where
  "visible_named ext name n =
     (hasSuffix (toLower name) ext \<and> (case n of File l d \<Rightarrow> True | Dir r es \<Rightarrow> r | Denied \<Rightarrow> False))"

fun holds_named :: "string \<Rightarrow> node \<Rightarrow> bool"
and holds_named_entries :: "string \<Rightarrow> (string \<times> node) list \<Rightarrow> bool" where
  "holds_named ext (Dir r es) = (r \<and> holds_named_entries ext es)"
| "holds_named ext (File l d) = False"
| "holds_named ext Denied = False"
| "holds_named_entries ext [] = False"
| "holds_named_entries ext ((name, n) # es) =
     (visible_named ext name n \<or> holds_named ext n \<or> holds_named_entries ext es)"

text \<open>A name that is one path element: not empty, not \<open>.\<close> or \<open>..\<close>, no separator.\<close>

definition simple_name :: "bool \<Rightarrow> string \<Rightarrow> bool" where
  "simple_name win n = (n \<noteq> [] \<and> n \<noteq> ''.'' \<and> n \<noteq> ''..'' \<and> \<not> list_ex (isPathSeparator win) n)"

text \<open>A project at \<open>C:\proj\<close> whose sources directory holds no file at all, only an
  empty directory named \<open>x.java\<close>.\<close>

definition java_directory_machine :: world where
  "java_directory_machine =
     bare_machine\<lparr>tree := Dir True [(''C:'', Dir True [(''proj'',
        Dir True [(''src'', Dir True [(''x.java'', Dir True [])])])])]\<rparr>"

text \<open>A project at \<open>C:\proj\<close> with two source files, one of them below a package
  directory and with its extension in capitals.\<close>

definition project_tree :: node where
  "project_tree =
     Dir True [(''src'', Dir True [(''Main.java'', File False ''class Main {}''),
                                   (''pkg'', Dir True [(''Util.JAVA'', File False ''class Util {}'')])])]"

definition project_machine :: world where
  "project_machine = bare_machine\<lparr>tree := Dir True [(''C:'', Dir True [(''proj'', project_tree)])]\<rparr>"




text \<open>A directory path that \<open>filepath.Glob\<close> takes literally: not empty, without any of the
  characters that are special in a pattern, and more than a bare drive.\<close>

definition plain_dir :: "bool \<Rightarrow> string \<Rightarrow> bool" where
  "plain_dir win d = (d \<noteq> [] \<and> \<not> hasMeta win d \<and> volume_len win d < length d)"

text \<open>A server installation whose library directory holds two archives and a text
  file; one whose library directory is empty; and one whose library directory cannot be
  listed although the files in it can be reached by name.\<close>

definition server_tree :: "node \<Rightarrow> node" where
  "server_tree lib =
     Dir True [(''SFS2X'', Dir True
        [(''extensions'', Dir True [(''MyExt'', Dir True [(''old.jar'', File False ''old archive'')])]),
         (''lib'', lib),
         (''sfs2x.bat'', File False ''java -cp lib/* Main'')])]"

definition two_jars :: node where
  "two_jars = Dir True [(''a.jar'', File False ''A''), (''b.jar'', File False ''B''),
                        (''readme.txt'', File False ''R'')]"

definition server_machine :: "node \<Rightarrow> world" where
  "server_machine lib =
     bare_machine\<lparr>tree := Dir True [(''C:'', Dir True [(''SmartFoxServer_2X'', server_tree lib)])]\<rparr>"

definition server_lib :: string where
  "server_lib = winpath [''C:'', ''SmartFoxServer_2X'', ''SFS2X'', ''lib'']"

text \<open>A clean source tree, as \<open>cleanupProject\<close> sees it: nothing named \<open>*.class\<close> under
  the sources directory, and no match for \<open>*.jar\<close> at the source root.\<close>

definition clean_source_tree :: "Config \<Rightarrow> world \<Rightarrow> bool" where
  "clean_source_tree config w =
     ((case stat w (path_join (windows w) [SourceDir config, ''src'']) of
         Found n \<Rightarrow> \<not> holds_named ''.class'' n
       | other \<Rightarrow> True) \<and>
      glob w (path_join (windows w) [SourceDir config, ''*.jar'']) = [])"


section \<open>Properties\<close>

subsection \<open>Facts about the event log\<close>

lemma events_println [simp]: "events (println msg w) = events w @ [Print msg]"
  by (simp add: println_def)

lemma events_exec_command [simp]:
  "events (snd (exec_command mode dir prog args w)) = events w @ [Exec mode dir prog args]"
  by (simp add: exec_command_def split: prod.splits)

lemma windows_println [simp]: "windows (println msg w) = windows w"
  by (simp add: println_def)

lemma windows_exec_command [simp]: "windows (snd (exec_command mode dir prog args w)) = windows w"
  by (simp add: exec_command_def split: prod.splits)

subsection \<open>Stopping the server: \<open>killPort9933\<close>\<close>

text \<open>What one line of the listing adds to the log.\<close>

lemma killPort9933_lines_events:
  "events (killPort9933_lines ls w) =
     events w @ concat (map (\<lambda>line.
       if contains line '':9933'' \<and> contains line ''LISTENING'' \<and> 5 \<le> length (strings_Fields line)
       then [Print (''Killing process '' @ last (strings_Fields line) @ '' using port 9933''),
             Exec Run [] ''taskkill'' [''/PID'', last (strings_Fields line), ''/F'']]
       else []) ls)"
  by (induction ls arbitrary: w) (simp_all add: Let_def)

lemma concat_map_single:
  assumes "filter P xs = [x]" and "\<And>y. R y \<Longrightarrow> P y" and "R x"
  shows "concat (map (\<lambda>y. if R y then f y else []) xs) = f x"
  using assms(1)
proof (induction xs)
  case Nil
  then show ?case by simp
next
  case (Cons a xs)
  show ?case
  proof (cases "P a")
    case True
    with Cons.prems have ax: "a = x" and "filter P xs = []" by simp_all
    then have "\<forall>y \<in> set xs. \<not> P y" by (simp add: filter_empty_conv)
    with assms(2) have "\<forall>y \<in> set xs. \<not> R y" by blast
    then have "concat (map (\<lambda>y. if R y then f y else []) xs) = []" by simp
    with ax assms(3) show ?thesis by simp
  next
    case False
    with assms(2) have "\<not> R a" by blast
    with False Cons show ?thesis by simp
  qed
qed

text \<open>
  C5 (as it holds). On Windows, when \<open>netstat -ano\<close> answers with a listing in which
  exactly one line contains \<open>:9933\<close> and \<open>LISTENING\<close>, and that line has the five columns
  of a connection with 4321 in the last one, \<open>killPort9933\<close> runs \<open>netstat\<close>, announces
  the kill and runs \<open>taskkill /PID 4321 /F\<close>: one forcible termination, of 4321, and no
  other command.
\<close>

theorem killPort9933_single_listener:
  assumes "windows w"
    and "os_exec w ''netstat'' [''-ano''] [] (events w) (tree w) = (True, listing, t)"
    and "filter (\<lambda>line. contains line '':9933'' \<and> contains line ''LISTENING'')
           (split_at (CHR 0x0A) listing) = [line]"
    and "5 \<le> length (strings_Fields line)"
    and "last (strings_Fields line) = ''4321''"
  shows "events (killPort9933 w) =
           events w @ [Exec Output [] ''netstat'' [''-ano''],
                       Print ''Killing process 4321 using port 9933'',
                       Exec Run [] ''taskkill'' [''/PID'', ''4321'', ''/F'']]"
proof -
  let ?w1 = "w\<lparr>tree := t, events := events w @ [Exec Output [] ''netstat'' [''-ano'']]\<rparr>"
  have run: "killPort9933 w = killPort9933_lines (split_at (CHR 0x0A) listing) ?w1"
    using assms(1,2) by (simp add: killPort9933_def exec_command_def)
  have "concat (map (\<lambda>l.
          if contains l '':9933'' \<and> contains l ''LISTENING'' \<and> 5 \<le> length (strings_Fields l)
          then [Print (''Killing process '' @ last (strings_Fields l) @ '' using port 9933''),
                Exec Run [] ''taskkill'' [''/PID'', last (strings_Fields l), ''/F'']]
          else []) (split_at (CHR 0x0A) listing)) =
        [Print (''Killing process '' @ last (strings_Fields line) @ '' using port 9933''),
         Exec Run [] ''taskkill'' [''/PID'', last (strings_Fields line), ''/F'']]"
  proof (rule concat_map_single [OF assms(3)])
    show "contains line '':9933'' \<and> contains line ''LISTENING'' \<and> 5 \<le> length (strings_Fields line)"
    proof -
      have "line \<in> set (filter (\<lambda>line. contains line '':9933'' \<and> contains line ''LISTENING'')
           (split_at (CHR 0x0A) listing))"
        unfolding assms(3) by simp
      then show ?thesis using assms(4) by simp
    qed
  qed simp
  then show ?thesis
    unfolding run killPort9933_lines_events using assms(5) by simp
qed

lemma netstat_listing_lines:
  "filter (\<lambda>line. contains line '':9933'' \<and> contains line ''LISTENING'')
     (split_at (CHR 0x0A) netstat_listing) = [netstat_line_4321]"
  by (simp add: netstat_listing_def netstat_line_4321_def)

lemma netstat_line_4321_fields:
  "strings_Fields netstat_line_4321 = [''TCP'', ''0.0.0.0:9933'', ''0.0.0.0:0'', ''LISTENING'', ''4321'']"
  by (simp add: netstat_line_4321_def strings_Fields_def space_width_def space_runes_def)

theorem killPort9933_single_listener_witness:
  "events (killPort9933 windows_server_machine) =
     [Exec Output [] ''netstat'' [''-ano''],
      Print ''Killing process 4321 using port 9933'',
      Exec Run [] ''taskkill'' [''/PID'', ''4321'', ''/F'']]"
  using killPort9933_single_listener [of windows_server_machine netstat_listing "Dir True []" netstat_line_4321]
  by (simp add: windows_server_machine_def bare_machine_def netstat_exec_def
      netstat_listing_lines netstat_line_4321_fields)

text \<open>
  C5 as stated fails off Windows: \<open>killPort9933\<close> returns at once, so with the very same
  listing at hand (one listening line on port 9933, owned by 4321) nothing is terminated.
\<close>

theorem killPort9933_not_windows_counterexample:
  "os_exec linux_server_machine ''netstat'' [''-ano''] []
       (events linux_server_machine) (tree linux_server_machine) = (True, netstat_listing, Dir True [])
   \<and> filter (\<lambda>line. contains line '':9933'' \<and> contains line ''LISTENING'')
         (split_at (CHR 0x0A) netstat_listing) = [netstat_line_4321]
   \<and> last (strings_Fields netstat_line_4321) = ''4321''
   \<and> events (killPort9933 linux_server_machine) = []"
  by (simp add: linux_server_machine_def bare_machine_def netstat_exec_def killPort9933_def
      netstat_listing_lines netstat_line_4321_fields)

subsection \<open>Restarting: \<open>restartServer\<close>\<close>

lemma fst_exec_command:
  "fst (exec_command mode dir prog args w) =
     (fst (os_exec w prog args dir (events w) (tree w)),
      fst (snd (os_exec w prog args dir (events w) (tree w))))"
  by (simp add: exec_command_def split: prod.splits)

lemma smartFoxCmdPid_println [simp]: "smartFoxCmdPid (println msg w) = smartFoxCmdPid w"
  by (simp add: println_def)

lemma os_exec_println [simp]: "os_exec (println msg w) = os_exec w"
  by (simp add: println_def)

lemma tree_println [simp]: "tree (println msg w) = tree w"
  by (simp add: println_def)

lemma smartFoxCmdPid_exec_command [simp]:
  "smartFoxCmdPid (snd (exec_command mode dir prog args w)) = smartFoxCmdPid w"
  by (simp add: exec_command_def split: prod.splits)

lemma os_writeFile_frame [simp]:
  "smartFoxCmdPid (snd (os_writeFile p d w)) = smartFoxCmdPid w"
  "events (snd (os_writeFile p d w)) = events w"
  "windows (snd (os_writeFile p d w)) = windows w"
  by (simp_all add: os_writeFile_def split: option.splits)

lemma close_stored_window_pid [simp]: "smartFoxCmdPid (close_stored_window w) = []"
  by (simp add: close_stored_window_def case_prod_beta)

lemma close_stored_window_live:
  assumes "smartFoxCmdPid w \<noteq> []"
    and "os_exec w ''tasklist'' [''/fi'', ''PID eq '' @ smartFoxCmdPid w, ''/fo'', ''csv''] []
           (events w @ [Print (''Checking if stored CMD window PID '' @ smartFoxCmdPid w @ '' is still alive...'')])
           (tree w) = (True, out, t)"
    and "contains out ''cmd.exe''"
  shows "events (close_stored_window w) =
           events w @
           [Print (''Checking if stored CMD window PID '' @ smartFoxCmdPid w @ '' is still alive...''),
            Exec Output [] ''tasklist'' [''/fi'', ''PID eq '' @ smartFoxCmdPid w, ''/fo'', ''csv''],
            Print ''Found existing SmartFox CMD window'',
            Print ''Since we need to see logs, creating new CMD window...'',
            Exec Run [] ''taskkill'' [''/PID'', smartFoxCmdPid w, ''/F''],
            Print (''Closed old CMD window PID: '' @ smartFoxCmdPid w)]"
  using assms by (simp add: close_stored_window_def case_prod_beta fst_exec_command)

lemma restartServer_events:
  "\<exists>rest. events (snd (restartServer config w)) =
      events (close_stored_window (println ''Phase 4: Restarting SmartFox Server'' w)) @
      Print ''Creating new CMD window for SmartFox server...'' # rest \<and>
      (fst (restartServer config w) \<longrightarrow>
         Exec Start (path_dir (windows w) (path_join (windows w) [TargetDir config, ''sfs_with_logs.bat'']))
           ''cmd'' [''/c'', ''start'', ''cmd'', ''/k'',
                    path_join (windows w) [TargetDir config, ''sfs_with_logs.bat'']] \<in> set rest)"
  by (simp add: restartServer_def Let_def case_prod_beta split: bool.splits)

lemma restartServer_pid: "smartFoxCmdPid (snd (restartServer config w)) = []"
  by (simp add: restartServer_def Let_def case_prod_beta split: bool.splits)

lemma close_stored_window_prefix: "\<exists>evs. events (close_stored_window w) = events w @ evs"
  by (simp add: close_stored_window_def case_prod_beta)

text \<open>
  C10. After \<open>restartServer\<close> the stored identifier is empty, whatever happened. A
  restart that succeeds has started a new \<open>cmd\<close> window. When the stored identifier is
  not empty and \<open>tasklist\<close> answers without error with a text containing \<open>cmd.exe\<close>,
  the phase runs \<open>taskkill /PID <identifier> /F\<close> before it announces and creates the new
  window: the log continues with exactly the eight entries listed, and whatever starts
  the new window comes after them.
\<close>

theorem restartServer_stored_window:
  "smartFoxCmdPid (snd (restartServer config w)) = [] \<and>
   (fst (restartServer config w) \<longrightarrow>
      (\<exists>pre post. events (snd (restartServer config w)) =
         events w @ pre @
         Exec Start (path_dir (windows w) (path_join (windows w) [TargetDir config, ''sfs_with_logs.bat'']))
           ''cmd'' [''/c'', ''start'', ''cmd'', ''/k'',
                    path_join (windows w) [TargetDir config, ''sfs_with_logs.bat'']] # post)) \<and>
   (smartFoxCmdPid w \<noteq> [] \<and>
    os_exec w ''tasklist'' [''/fi'', ''PID eq '' @ smartFoxCmdPid w, ''/fo'', ''csv''] []
      (events w @ [Print ''Phase 4: Restarting SmartFox Server'',
                   Print (''Checking if stored CMD window PID '' @ smartFoxCmdPid w @ '' is still alive...'')])
      (tree w) = (True, out, t) \<and>
    contains out ''cmd.exe'' \<longrightarrow>
      (\<exists>rest. events (snd (restartServer config w)) =
         events w @
         [Print ''Phase 4: Restarting SmartFox Server'',
          Print (''Checking if stored CMD window PID '' @ smartFoxCmdPid w @ '' is still alive...''),
          Exec Output [] ''tasklist'' [''/fi'', ''PID eq '' @ smartFoxCmdPid w, ''/fo'', ''csv''],
          Print ''Found existing SmartFox CMD window'',
          Print ''Since we need to see logs, creating new CMD window...'',
          Exec Run [] ''taskkill'' [''/PID'', smartFoxCmdPid w, ''/F''],
          Print (''Closed old CMD window PID: '' @ smartFoxCmdPid w),
          Print ''Creating new CMD window for SmartFox server...''] @ rest))"
proof (intro conjI impI)
  show "smartFoxCmdPid (snd (restartServer config w)) = []"
    by (rule restartServer_pid)
next
  assume ok: "fst (restartServer config w)"
  obtain rest where rest: "events (snd (restartServer config w)) =
      events (close_stored_window (println ''Phase 4: Restarting SmartFox Server'' w)) @
      Print ''Creating new CMD window for SmartFox server...'' # rest"
    and spawn: "Exec Start (path_dir (windows w) (path_join (windows w) [TargetDir config, ''sfs_with_logs.bat'']))
           ''cmd'' [''/c'', ''start'', ''cmd'', ''/k'',
                    path_join (windows w) [TargetDir config, ''sfs_with_logs.bat'']] \<in> set rest"
    using restartServer_events [of config w] ok by blast
  obtain evs where evs: "events (close_stored_window (println ''Phase 4: Restarting SmartFox Server'' w)) =
      events w @ Print ''Phase 4: Restarting SmartFox Server'' # evs"
    using close_stored_window_prefix [of "println ''Phase 4: Restarting SmartFox Server'' w"] by auto
  obtain r1 r2 where "rest = r1 @ Exec Start (path_dir (windows w) (path_join (windows w) [TargetDir config, ''sfs_with_logs.bat'']))
           ''cmd'' [''/c'', ''start'', ''cmd'', ''/k'',
                    path_join (windows w) [TargetDir config, ''sfs_with_logs.bat'']] # r2"
    using spawn by (auto simp: in_set_conv_decomp)
  then have "events (snd (restartServer config w)) =
      events w @ (Print ''Phase 4: Restarting SmartFox Server'' # evs @
        Print ''Creating new CMD window for SmartFox server...'' # r1) @
      Exec Start (path_dir (windows w) (path_join (windows w) [TargetDir config, ''sfs_with_logs.bat'']))
           ''cmd'' [''/c'', ''start'', ''cmd'', ''/k'',
                    path_join (windows w) [TargetDir config, ''sfs_with_logs.bat'']] # r2"
    using rest evs by simp
  then show "\<exists>pre post. events (snd (restartServer config w)) =
         events w @ pre @
         Exec Start (path_dir (windows w) (path_join (windows w) [TargetDir config, ''sfs_with_logs.bat'']))
           ''cmd'' [''/c'', ''start'', ''cmd'', ''/k'',
                    path_join (windows w) [TargetDir config, ''sfs_with_logs.bat'']] # post"
    by blast
next
  assume live: "smartFoxCmdPid w \<noteq> [] \<and>
    os_exec w ''tasklist'' [''/fi'', ''PID eq '' @ smartFoxCmdPid w, ''/fo'', ''csv''] []
      (events w @ [Print ''Phase 4: Restarting SmartFox Server'',
                   Print (''Checking if stored CMD window PID '' @ smartFoxCmdPid w @ '' is still alive...'')])
      (tree w) = (True, out, t) \<and>
    contains out ''cmd.exe''"
  obtain rest where rest: "events (snd (restartServer config w)) =
      events (close_stored_window (println ''Phase 4: Restarting SmartFox Server'' w)) @
      Print ''Creating new CMD window for SmartFox server...'' # rest"
    using restartServer_events [of config w] by blast
  have "events (close_stored_window (println ''Phase 4: Restarting SmartFox Server'' w)) =
      events (println ''Phase 4: Restarting SmartFox Server'' w) @
           [Print (''Checking if stored CMD window PID '' @ smartFoxCmdPid w @ '' is still alive...''),
            Exec Output [] ''tasklist'' [''/fi'', ''PID eq '' @ smartFoxCmdPid w, ''/fo'', ''csv''],
            Print ''Found existing SmartFox CMD window'',
            Print ''Since we need to see logs, creating new CMD window...'',
            Exec Run [] ''taskkill'' [''/PID'', smartFoxCmdPid w, ''/F''],
            Print (''Closed old CMD window PID: '' @ smartFoxCmdPid w)]"
    using close_stored_window_live [of "println ''Phase 4: Restarting SmartFox Server'' w" out t] live
    by simp
  with rest show "\<exists>rest. events (snd (restartServer config w)) =
         events w @
         [Print ''Phase 4: Restarting SmartFox Server'',
          Print (''Checking if stored CMD window PID '' @ smartFoxCmdPid w @ '' is still alive...''),
          Exec Output [] ''tasklist'' [''/fi'', ''PID eq '' @ smartFoxCmdPid w, ''/fo'', ''csv''],
          Print ''Found existing SmartFox CMD window'',
          Print ''Since we need to see logs, creating new CMD window...'',
          Exec Run [] ''taskkill'' [''/PID'', smartFoxCmdPid w, ''/F''],
          Print (''Closed old CMD window PID: '' @ smartFoxCmdPid w),
          Print ''Creating new CMD window for SmartFox server...''] @ rest"
    by simp
qed

lemma restart_machine_run:
  "fst (restartServer restart_config restart_machine) \<and>
   events (snd (restartServer restart_config restart_machine)) =
     [Print ''Phase 4: Restarting SmartFox Server'',
      Print ''Checking if stored CMD window PID 900 is still alive...'',
      Exec Output [] ''tasklist'' [''/fi'', ''PID eq 900'', ''/fo'', ''csv''],
      Print ''Found existing SmartFox CMD window'',
      Print ''Since we need to see logs, creating new CMD window...'',
      Exec Run [] ''taskkill'' [''/PID'', ''900'', ''/F''],
      Print ''Closed old CMD window PID: 900'',
      Print ''Creating new CMD window for SmartFox server...'',
      Exec Start (winpath [''C:'', ''sfs'']) ''cmd''
        [''/c'', ''start'', ''cmd'', ''/k'', winpath [''C:'', ''sfs'', ''sfs_with_logs.bat'']],
      RemoveLater 5 (winpath [''C:'', ''sfs'', ''sfs_with_logs.bat'']),
      Print ''Server started in new CMD window with logs'',
      Print ''Check the new CMD window for server logs and status'']"
  by code_simp

theorem restartServer_stored_window_witness:
  "smartFoxCmdPid restart_machine = ''900'' \<and>
   smartFoxCmdPid (snd (restartServer restart_config restart_machine)) = [] \<and>
   fst (restartServer restart_config restart_machine) \<and>
   (\<exists>rest. events (snd (restartServer restart_config restart_machine)) =
      [Print ''Phase 4: Restarting SmartFox Server'',
       Print ''Checking if stored CMD window PID 900 is still alive...'',
       Exec Output [] ''tasklist'' [''/fi'', ''PID eq 900'', ''/fo'', ''csv''],
       Print ''Found existing SmartFox CMD window'',
       Print ''Since we need to see logs, creating new CMD window...'',
       Exec Run [] ''taskkill'' [''/PID'', ''900'', ''/F''],
       Print ''Closed old CMD window PID: 900'',
       Print ''Creating new CMD window for SmartFox server...''] @ rest)"
  using restartServer_stored_window [of restart_config restart_machine
      "''\"cmd.exe\",\"900\",\"Console\",\"1\",\"4,120 K\"''" "tree restart_machine"]
    restart_machine_run
  by (simp add: restart_machine_def bare_machine_def tasklist_exec_def)

subsection \<open>Paths and lookups\<close>

lemma path_elems_not_Nil [simp]: "path_elems win p \<noteq> []"
  by (induction p) (auto split: list.splits)

lemma path_elems_simple: "\<not> list_ex (isPathSeparator win) n \<Longrightarrow> path_elems win n = [n]"
  by (induction n) (auto split: list.splits)

lemma isPathSeparator_separator [simp]: "isPathSeparator win (separator win)"
  by (simp add: isPathSeparator_def separator_def)

lemma path_elems_snoc:
  "\<not> list_ex (isPathSeparator win) n \<Longrightarrow>
   path_elems win (p @ separator win # n) = path_elems win p @ [n]"
proof (induction p)
  case Nil
  then show ?case by (simp add: path_elems_simple)
next
  case (Cons c p)
  then show ?case by (cases "path_elems win p") auto
qed

lemma volume_len_join:
  "d \<noteq> [] \<Longrightarrow> volume_len win (d @ separator win # n) = volume_len win d"
  by (cases d; cases "tl d") (auto simp: volume_len_def separator_def bslash_def nth_append nth_Cons')

lemma volume_len_le: "volume_len win d \<le> length d"
  by (simp add: volume_len_def)

lemma resolve_join:
  assumes "d \<noteq> []" and "simple_name (windows w) n"
  shows "resolve w (path_join (windows w) [d, n]) = resolve w d @ [n]"
proof -
  let ?win = "windows w"
  from assms have n: "n \<noteq> []" "n \<noteq> ''.''" "n \<noteq> ''..''" "\<not> list_ex (isPathSeparator ?win) n"
    by (simp_all add: simple_name_def)
  have j: "path_join ?win [d, n] = d @ separator ?win # n"
    using assms(1) n(1) by (simp add: path_join_def)
  have v: "volume_len ?win (d @ separator ?win # n) = volume_len ?win d"
    by (rule volume_len_join [OF assms(1)])
  have dr: "drop (volume_len ?win d) (d @ separator ?win # n) = drop (volume_len ?win d) d @ separator ?win # n"
    using volume_len_le [of ?win d] by simp
  have tk: "volume_len ?win d = 2 \<Longrightarrow> take 2 (d @ separator ?win # n) = take 2 d"
    using volume_len_le [of ?win d] by simp
  have hd': "hd (d @ separator ?win # n) = hd d" using assms(1) by simp
  show ?thesis
    unfolding j resolve_def Let_def v dr
    using tk hd' assms(1) n by (simp add: path_elems_snoc walk_step_def)
qed

lemma lookup_snoc:
  "lookup t (p @ [c]) = Found n \<Longrightarrow> \<exists>r es. lookup t p = Found (Dir r es) \<and> map_of es c = Some n"
proof (induction t p rule: lookup.induct)
  case (1 n')
  then show ?case by (cases n') (auto split: option.splits node.splits)
next
  case (2 r es c' cs)
  then show ?case by (auto split: option.splits)
qed auto

subsection \<open>Source-tree validation: \<open>validateSourceDir\<close>\<close>

lemma path_base_src:
  "path_base win (path_join win [d, ''src'']) = ''src''"
  by (cases "d = []") (auto simp: path_base_def path_join_def isPathSeparator_def separator_def bslash_def Let_def)

lemma walk_hasJavaFiles:
  fixes fn :: "string \<Rightarrow> string \<Rightarrow> bool \<Rightarrow> bool \<Rightarrow> walk_ctl \<times> bool"
  shows "fn = hasJavaFiles_fn \<Longrightarrow>
     snd (walk win fn path nm n found) = (found \<or> visible_named ''.java'' nm n \<or> holds_named ''.java'' n) \<and>
     (fst (walk win fn path nm n found) = SkipDir \<longrightarrow> snd (walk win fn path nm n found))"
  and "fn = hasJavaFiles_fn \<Longrightarrow>
     snd (walk_names win fn path es found) = (found \<or> holds_named_entries ''.java'' es) \<and>
     (fst (walk_names win fn path es found) = SkipDir \<longrightarrow> snd (walk_names win fn path es found))"
proof (induction win fn path nm n found and win fn path es found rule: walk_walk_names.induct)
  case (1 win fn path nm l d s)
  then show ?case by (simp add: hasJavaFiles_fn_def visible_named_def)
next
  case (2 win fn path nm s)
  then show ?case by (simp add: hasJavaFiles_fn_def visible_named_def)
next
  case (3 win fn path nm r es s)
  note fn = \<open>fn = hasJavaFiles_fn\<close>
  show ?case
  proof (cases r)
    case False
    then show ?thesis by (simp add: fn hasJavaFiles_fn_def visible_named_def)
  next
    case True
    show ?thesis
    proof (cases "hasSuffix (toLower nm) ''.java''")
      case suffix: True
      then show ?thesis using True by (simp add: fn hasJavaFiles_fn_def visible_named_def)
    next
      case nosuffix: False
      have call: "fn path nm (\<not> r) s = (WalkNext, s)"
        using True nosuffix by (simp add: fn hasJavaFiles_fn_def)
      have ih: "snd (walk_names win fn path es s) = (s \<or> holds_named_entries ''.java'' es) \<and>
                (fst (walk_names win fn path es s) = SkipDir \<longrightarrow> snd (walk_names win fn path es s))"
        using "3.IH" [of WalkNext s] call True fn by auto
      have eq: "walk win fn path nm (Dir r es) s = walk_names win fn path es s"
        using call True by simp
      show ?thesis unfolding eq using ih True nosuffix by (auto simp: visible_named_def)
    qed
  qed
next
  case (4 win fn path s)
  then show ?case by simp
next
  case (5 win fn path n ch es s)
  note fn = \<open>fn = hasJavaFiles_fn\<close>
  obtain c s1 where w1: "walk win fn (path_join win [path, n]) n ch s = (c, s1)"
    by (cases "walk win fn (path_join win [path, n]) n ch s")
  have ih1: "s1 = (s \<or> visible_named ''.java'' n ch \<or> holds_named ''.java'' ch)" "c = SkipDir \<longrightarrow> s1"
    using "5.IH"(1) [OF fn] w1 by auto
  show ?case
  proof (cases "c = SkipDir \<and> (\<exists>l d. ch = File l d)")
    case True
    then have "walk_names win fn path ((n, ch) # es) s = (SkipDir, s1)"
      using w1 by auto
    then show ?thesis using ih1 True by auto
  next
    case False
    have ih2: "snd (walk_names win fn path es s1) = (s1 \<or> holds_named_entries ''.java'' es) \<and>
        (fst (walk_names win fn path es s1) = SkipDir \<longrightarrow> snd (walk_names win fn path es s1))"
    proof (cases c)
      case WalkNext
      then show ?thesis using "5.IH"(2) [of c s1] w1 fn by auto
    next
      case SkipDir
      with False have nf: "\<And>l d. ch \<noteq> File l d" by simp
      show ?thesis
      proof (cases ch)
        case (File l d)
        with nf [of l d] show ?thesis by blast
      next
        case (Dir r es')
        then show ?thesis using "5.IH"(3) [of c s1 r es'] w1 fn SkipDir by auto
      next
        case Denied
        then show ?thesis using "5.IH"(4) [of c s1] w1 fn SkipDir by auto
      qed
    qed
    have eq: "walk_names win fn path ((n, ch) # es) s = walk_names win fn path es s1"
      using w1 False by (cases c; cases ch) simp_all
    show ?thesis unfolding eq using ih2 ih1 by auto
  qed
qed

lemma holds_named_Dir: "holds_named ext n = (\<exists>es. n = Dir True es \<and> holds_named_entries ext es)"
  by (cases n) auto

lemma not_visible_src_java [simp]: "\<not> visible_named ''.java'' ''src'' n"
  by (simp add: visible_named_def hasSuffix_def toLower_def toLowerChar_def)

lemma hasJavaFiles_src:
  "hasJavaFiles w (path_join (windows w) [dir, ''src'']) =
     (\<exists>es. stat w (path_join (windows w) [dir, ''src'']) = Found (Dir True es) \<and> holds_named_entries ''.java'' es)"
proof (cases "stat w (path_join (windows w) [dir, ''src''])")
  case (Found n)
  then show ?thesis
    using walk_hasJavaFiles(1) [OF refl, of "windows w" "path_join (windows w) [dir, ''src'']" "''src''" n False]
    by (simp add: hasJavaFiles_def filepath_Walk_def path_base_src holds_named_Dir)
next
  case NotExist
  then show ?thesis by (simp add: hasJavaFiles_def filepath_Walk_def hasJavaFiles_fn_def)
next
  case StatError
  then show ?thesis by (simp add: hasJavaFiles_def filepath_Walk_def hasJavaFiles_fn_def)
qed

lemma simple_name_src [simp]: "simple_name win ''src''"
  by (simp add: simple_name_def isPathSeparator_def bslash_def)

lemma stat_join_Found:
  assumes "stat w (path_join (windows w) [d, n]) = Found x" and "d \<noteq> []" and "simple_name (windows w) n"
  shows "\<exists>r es. stat w d = Found (Dir r es) \<and> map_of es n = Some x"
proof -
  have "path_join (windows w) [d, n] \<noteq> []" using assms(2) by (simp add: path_join_def)
  then have "lookup (tree w) (resolve w d @ [n]) = Found x"
    using assms by (simp add: stat_def resolve_join)
  from lookup_snoc [OF this] show ?thesis using assms(2) by (simp add: stat_def)
qed

text \<open>
  What \<open>validateSourceDir\<close> decides: it succeeds exactly when the path is not reported
  missing, its \<open>src\<close> entry is a directory that can be listed, and that directory holds
  at any depth an entry named \<open>*.java\<close>, be it a file or a directory: a test of presence.
  Success implies that the path itself is a directory of the tree; a path that does not
  exist fails.
\<close>

lemma validateSourceDir_presence:
  "validateSourceDir w dir =
     (stat w dir \<noteq> NotExist \<and>
      (\<exists>es. stat w (path_join (windows w) [dir, ''src'']) = Found (Dir True es) \<and> holds_named_entries ''.java'' es)) \<and>
   (validateSourceDir w dir \<longrightarrow> (\<exists>r es. stat w dir = Found (Dir r es))) \<and>
   (stat w dir = NotExist \<longrightarrow> \<not> validateSourceDir w dir)"
proof -
  have iff: "validateSourceDir w dir =
     (stat w dir \<noteq> NotExist \<and>
      (\<exists>es. stat w (path_join (windows w) [dir, ''src'']) = Found (Dir True es) \<and> holds_named_entries ''.java'' es))"
    by (auto simp: validateSourceDir_def Let_def hasJavaFiles_src)
  have "\<exists>r es. stat w dir = Found (Dir r es)" if v: "validateSourceDir w dir"
  proof -
    from v iff obtain es where ne: "stat w dir \<noteq> NotExist"
      and src: "stat w (path_join (windows w) [dir, ''src'']) = Found (Dir True es)" by blast
    from ne have "dir \<noteq> []" by (auto simp: stat_def)
    from stat_join_Found [OF src this] show ?thesis by auto
  qed
  with iff show ?thesis by blast
qed

lemma project_machine_valid: "validateSourceDir project_machine (winpath [''C:'', ''proj''])"
  by code_simp

lemma project_machine_missing: "stat project_machine (winpath [''C:'', ''nowhere'']) = NotExist"
  by code_simp

lemma validateSourceDir_presence_example:
  "validateSourceDir project_machine (winpath [''C:'', ''proj'']) \<and>
   (\<exists>es. stat project_machine (path_join True [winpath [''C:'', ''proj''], ''src'']) = Found (Dir True es) \<and>
         holds_named_entries ''.java'' es) \<and>
   stat project_machine (winpath [''C:'', ''nowhere'']) = NotExist \<and>
   \<not> validateSourceDir project_machine (winpath [''C:'', ''nowhere''])"
  using validateSourceDir_presence [of project_machine "winpath [''C:'', ''proj'']"]
    validateSourceDir_presence [of project_machine "winpath [''C:'', ''nowhere'']"]
    project_machine_valid project_machine_missing
  by (simp add: project_machine_def bare_machine_def)

text \<open>
  C9 asks for a file with the Java extension below \<open>src\<close>, as the comments of
  \<open>validateSourceDir\<close> and \<open>hasJavaFiles\<close> do ("Check for Java files", "Stop walking once
  we find a Java file"). The code looks at the name of an entry only: a project whose
  \<open>src\<close> holds nothing but an empty directory named \<open>x.java\<close> passes validation, though
  it has no source file.
\<close>

theorem validateSourceDir_accepts_directory:
  "stat java_directory_machine (path_join True [winpath [''C:'', ''proj''], ''src'']) =
     Found (Dir True [(''x.java'', Dir True [])]) \<and>
   validateSourceDir java_directory_machine (winpath [''C:'', ''proj''])"
  by code_simp

subsection \<open>Walks\<close>

lemma walk_invariant:
  shows "(\<And>path nm err s. I s \<Longrightarrow> I (snd (fn path nm err s))) \<Longrightarrow> I s \<Longrightarrow>
           I (snd (walk win fn path nm n s))"
    and "(\<And>path nm err s. I s \<Longrightarrow> I (snd (fn path nm err s))) \<Longrightarrow> I s \<Longrightarrow>
           I (snd (walk_names win fn path es s))"
proof (induction win fn path nm n s and win fn path es s rule: walk_walk_names.induct)
  case (1 win fn path nm l d s)
  then show ?case by auto
next
  case (2 win fn path nm s)
  then show ?case by auto
next
  case (3 win fn path nm r es s)
  obtain c s1 where c: "fn path nm (\<not> r) s = (c, s1)" by (cases "fn path nm (\<not> r) s")
  have s1: "I s1" using "3.prems"(1) [OF "3.prems"(2), of path nm "\<not> r"] c by simp
  show ?case
  proof (cases "c = WalkNext \<and> r")
    case True
    then show ?thesis using c "3.IH" [of c s1, OF _ _ _ "3.prems"(1) s1] by simp
  next
    case False
    then show ?thesis using c s1 by (cases c; cases r) simp_all
  qed
next
  case (4 win fn path s)
  then show ?case by simp
next
  case (5 win fn path n ch es s)
  obtain c s1 where c: "walk win fn (path_join win [path, n]) n ch s = (c, s1)"
    by (cases "walk win fn (path_join win [path, n]) n ch s")
  have s1: "I s1" using "5.IH"(1) [OF "5.prems"] c by simp
  show ?case
  proof (cases "c = SkipDir \<and> (\<exists>l d. ch = File l d)")
    case True
    then show ?thesis using c s1 by auto
  next
    case False
    have "I (snd (walk_names win fn path es s1))"
    proof (cases c)
      case WalkNext
      then show ?thesis using "5.IH"(2) [of c s1, OF _ _ "5.prems"(1) s1] c by simp
    next
      case SkipDir
      show ?thesis
      proof (cases ch)
        case (File l d)
        with False SkipDir show ?thesis by simp
      next
        case (Dir r es')
        then show ?thesis using "5.IH"(3) [of c s1 r es', OF _ _ _ "5.prems"(1) s1] c SkipDir by simp
      next
        case Denied
        then show ?thesis using "5.IH"(4) [of c s1, OF _ _ _ "5.prems"(1) s1] c SkipDir by simp
      qed
    qed
    moreover have "walk_names win fn path ((n, ch) # es) s = walk_names win fn path es s1"
      using c False by (cases c; cases ch) simp_all
    ultimately show ?thesis by simp
  qed
qed

lemma filepath_Walk_invariant:
  assumes "\<And>path nm err s. I s \<Longrightarrow> I (snd (fn path nm err s))" and "I s"
  shows "I (filepath_Walk w root fn s)"
proof (cases "stat w root")
  case (Found n)
  then show ?thesis
    using walk_invariant(1) [of I fn s "windows w" root "path_base (windows w) root" n] assms
    by (simp add: filepath_Walk_def)
next
  case NotExist
  then show ?thesis using assms(1) [OF assms(2)] by (simp add: filepath_Walk_def)
next
  case StatError
  then show ?thesis using assms(1) [OF assms(2)] by (simp add: filepath_Walk_def)
qed

lemma events_os_remove [simp]: "events (snd (os_remove p w)) = events w"
  by (simp add: os_remove_def split: option.splits)

lemma events_cleanClassFiles [simp]: "events (cleanClassFiles d w) = events w"
  unfolding cleanClassFiles_def
  by (rule filepath_Walk_invariant [where I = "\<lambda>s. events s = events w"])
     (simp_all add: cleanClassFiles_fn_def)

lemma windows_os_remove [simp]: "windows (snd (os_remove p w)) = windows w"
  by (simp add: os_remove_def split: option.splits)

lemma windows_cleanClassFiles [simp]: "windows (cleanClassFiles d w) = windows w"
  unfolding cleanClassFiles_def
  by (rule filepath_Walk_invariant [where I = "\<lambda>s. windows s = windows w"])
     (simp_all add: cleanClassFiles_fn_def)

subsection \<open>Building: \<open>buildProject\<close>\<close>




subsection \<open>Globbing the entries of a directory\<close>

lemma path_split_join:
  assumes "d \<noteq> []" and "\<not> list_ex (isPathSeparator win) pat"
  shows "path_split win (d @ separator win # pat) = (d @ [separator win], pat)"
proof -
  have v: "volume_len win (d @ separator win # pat) = volume_len win d"
    by (rule volume_len_join [OF assms(1)])
  have dr: "drop (volume_len win d) (d @ separator win # pat) = drop (volume_len win d) d @ separator win # pat"
    using volume_len_le [of win d] by simp
  have tw: "takeWhile (\<lambda>c. \<not> isPathSeparator win c) (rev pat @ separator win # rev (drop (volume_len win d) d)) = rev pat"
    using assms(2) by (simp add: takeWhile_tail list_ex_iff)
  show ?thesis
    unfolding path_split_def Let_def v dr
    by (simp add: tw)
qed

lemma cleanGlobPath_join:
  assumes "d \<noteq> []" and "volume_len win d < length d"
  shows "cleanGlobPath win (d @ [separator win]) = d"
proof -
  have v: "volume_len win (d @ [separator win]) = volume_len win d"
    using volume_len_join [OF assms(1), of win "[]"] by simp
  have "volume_len win d \<le> 2" by (simp add: volume_len_def)
  then show ?thesis
    using assms by (auto simp: cleanGlobPath_def Let_def v)
qed

lemma hasMeta_append: "hasMeta win (xs @ ys) = (hasMeta win xs \<or> hasMeta win ys)"
  by (simp add: hasMeta_def)

lemma plain_pattern_append: "plain_pattern win (xs @ ys) = (plain_pattern win xs \<and> plain_pattern win ys)"
  by (auto simp: plain_pattern_def)

lemma not_hasMeta_plain: "\<not> hasMeta win d \<Longrightarrow> plain_pattern win d"
  by (cases win) (auto simp: hasMeta_def plain_pattern_def list_ex_iff)

lemma not_hasMeta_drop: "\<not> hasMeta win d \<Longrightarrow> \<not> hasMeta win (drop k d)"
  by (auto simp: hasMeta_def list_ex_iff dest: in_set_dropD)

lemma plain_pattern_separator [simp]: "plain_pattern win [separator win]"
  by (simp add: plain_pattern_def separator_def bslash_def)

lemma glob_in_dir:
  assumes "plain_dir (windows w) d"
    and "hasMeta (windows w) pat" and "plain_pattern (windows w) pat"
    and "\<not> list_ex (isPathSeparator (windows w)) pat"
  shows "glob w (path_join (windows w) [d, pat]) = glob_dir w d pat []"
proof -
  let ?win = "windows w"
  from assms(1) have d: "d \<noteq> []" "\<not> hasMeta ?win d" "volume_len ?win d < length d"
    by (simp_all add: plain_dir_def)
  from assms(2) have pat: "pat \<noteq> []" by (auto simp: hasMeta_def)
  have j: "path_join ?win [d, pat] = d @ separator ?win # pat"
    using d(1) pat by (simp add: path_join_def)
  have "plain_pattern ?win ([separator ?win] @ pat)"
    unfolding plain_pattern_append using assms(3) by simp
  then have plain: "plain_pattern ?win (d @ separator ?win # pat)"
    using not_hasMeta_plain [OF d(2)] plain_pattern_append [of ?win d "[separator ?win] @ pat"] by simp
  have meta: "hasMeta ?win (d @ separator ?win # pat)"
    using assms(2) hasMeta_append [of ?win "d @ [separator ?win]" pat] by simp
  have v: "volume_len ?win (d @ separator ?win # pat) = volume_len ?win d"
    by (rule volume_len_join [OF d(1)])
  show ?thesis
    unfolding j
    by (subst glob.simps)
       (simp add: plain meta v path_split_join [OF d(1) assms(4)] cleanGlobPath_join [OF d(1) d(3)]
          not_hasMeta_drop [OF d(2)])
qed

lemma jar_pattern [simp]:
  "hasMeta win ''*.jar''" "plain_pattern win ''*.jar''" "\<not> list_ex (isPathSeparator win) ''*.jar''"
  by (simp_all add: hasMeta_def plain_pattern_def isPathSeparator_def bslash_def)

lemma glob_jars:
  "plain_dir (windows w) d \<Longrightarrow> glob w (path_join (windows w) [d, ''*.jar'']) = glob_dir w d ''*.jar'' []"
  by (rule glob_in_dir [OF _ jar_pattern])

subsection \<open>The classpath: \<open>buildClasspath\<close>\<close>

text \<open>
  C6. When the glob for \<open>*.jar\<close> in the library directory yields two paths, the
  classpath is the first, the separator (\<open>;\<close> on Windows, \<open>:\<close> elsewhere) and the second,
  and nothing is printed; in particular when the directory lists exactly the archives
  \<open>a.jar\<close> and \<open>b.jar\<close>, in that order. When the glob yields nothing, the matches of the
  required patterns are taken, in the order of the patterns; when these are empty too,
  the classpath is \<open>.\<close> and a warning is printed.
\<close>

theorem buildClasspath_cases:
  "(glob w (path_join (windows w) [lib, ''*.jar'']) = [a, b] \<longrightarrow>
      buildClasspath lib w = (a @ (if windows w then '';'' else '':'') @ b, w)) \<and>
   (plain_dir (windows w) lib \<and> stat w lib = Found (Dir True es) \<and>
    filter (match (windows w) ''*.jar'') (map fst es) = [''a.jar'', ''b.jar''] \<longrightarrow>
      buildClasspath lib w =
        (path_join (windows w) [lib, ''a.jar''] @ (if windows w then '';'' else '':'') @
         path_join (windows w) [lib, ''b.jar''], w)) \<and>
   (glob w (path_join (windows w) [lib, ''*.jar'']) = [] \<longrightarrow>
      buildClasspath lib w =
        (if concat (map (\<lambda>jarPattern. glob w (path_join (windows w) [lib, jarPattern])) requiredJars) = []
         then (''.'', println (''Warning: No JAR files found in '' @ lib) w)
         else (join_with (if windows w then '';'' else '':'')
                 (concat (map (\<lambda>jarPattern. glob w (path_join (windows w) [lib, jarPattern])) requiredJars)),
               w)))"
proof (intro conjI impI)
  assume "glob w (path_join (windows w) [lib, ''*.jar'']) = [a, b]"
  then show "buildClasspath lib w = (a @ (if windows w then '';'' else '':'') @ b, w)"
    by (simp add: buildClasspath_def)
next
  assume h: "plain_dir (windows w) lib \<and> stat w lib = Found (Dir True es) \<and>
    filter (match (windows w) ''*.jar'') (map fst es) = [''a.jar'', ''b.jar'']"
  then have "glob w (path_join (windows w) [lib, ''*.jar'']) =
      [path_join (windows w) [lib, ''a.jar''], path_join (windows w) [lib, ''b.jar'']]"
    by (simp add: glob_jars glob_dir_def)
  then show "buildClasspath lib w =
        (path_join (windows w) [lib, ''a.jar''] @ (if windows w then '';'' else '':'') @
         path_join (windows w) [lib, ''b.jar''], w)"
    by (simp add: buildClasspath_def)
next
  assume "glob w (path_join (windows w) [lib, ''*.jar'']) = []"
  then show "buildClasspath lib w =
        (if concat (map (\<lambda>jarPattern. glob w (path_join (windows w) [lib, jarPattern])) requiredJars) = []
         then (''.'', println (''Warning: No JAR files found in '' @ lib) w)
         else (join_with (if windows w then '';'' else '':'')
                 (concat (map (\<lambda>jarPattern. glob w (path_join (windows w) [lib, jarPattern])) requiredJars)),
               w))"
    by (simp add: buildClasspath_def Let_def)
qed

lemma windows_server_machine [simp]: "windows (server_machine lib) = True"
  by (simp add: server_machine_def bare_machine_def)

lemma two_jars_listing:
  "plain_dir True server_lib \<and>
   stat (server_machine two_jars) server_lib =
     Found (Dir True [(''a.jar'', File False ''A''), (''b.jar'', File False ''B''),
                      (''readme.txt'', File False ''R'')]) \<and>
   filter (match True ''*.jar'') (map fst [(''a.jar'', File False ''A''), (''b.jar'', File False ''B''),
                        (''readme.txt'', File False ''R'')]) = [''a.jar'', ''b.jar'']"
  by code_simp

lemma empty_lib_globs:
  "glob (server_machine (Dir True [])) (path_join True [server_lib, ''*.jar'']) = [] \<and>
   concat (map (\<lambda>jarPattern. glob (server_machine (Dir True [])) (path_join True [server_lib, jarPattern]))
     requiredJars) = []"
  by code_simp

lemma unlisted_lib_globs:
  "glob (server_machine (Dir False [(''logback-1.2.jar'', File False ''L''), (''sfs2x.jar'', File False ''S'')]))
     (path_join True [server_lib, ''*.jar'']) = [] \<and>
   concat (map (\<lambda>jarPattern.
       glob (server_machine (Dir False [(''logback-1.2.jar'', File False ''L''), (''sfs2x.jar'', File False ''S'')]))
         (path_join True [server_lib, jarPattern])) requiredJars) =
     [winpath [''C:'', ''SmartFoxServer_2X'', ''SFS2X'', ''lib'', ''sfs2x.jar'']]"
  by code_simp

theorem buildClasspath_cases_witness:
  "buildClasspath server_lib (server_machine two_jars) =
     (path_join True [server_lib, ''a.jar''] @ '';'' @ path_join True [server_lib, ''b.jar''],
      server_machine two_jars) \<and>
   buildClasspath server_lib (server_machine (Dir True [])) =
     (''.'', println (''Warning: No JAR files found in '' @ server_lib) (server_machine (Dir True []))) \<and>
   buildClasspath server_lib
       (server_machine (Dir False [(''logback-1.2.jar'', File False ''L''), (''sfs2x.jar'', File False ''S'')])) =
     (winpath [''C:'', ''SmartFoxServer_2X'', ''SFS2X'', ''lib'', ''sfs2x.jar''],
      server_machine (Dir False [(''logback-1.2.jar'', File False ''L''), (''sfs2x.jar'', File False ''S'')]))"
proof (intro conjI)
  show "buildClasspath server_lib (server_machine two_jars) =
     (path_join True [server_lib, ''a.jar''] @ '';'' @ path_join True [server_lib, ''b.jar''],
      server_machine two_jars)"
    using buildClasspath_cases [of "server_machine two_jars" server_lib "[]" "[]"
          "[(''a.jar'', File False ''A''), (''b.jar'', File False ''B''), (''readme.txt'', File False ''R'')]"]
      two_jars_listing
    by simp
next
  show "buildClasspath server_lib (server_machine (Dir True [])) =
     (''.'', println (''Warning: No JAR files found in '' @ server_lib) (server_machine (Dir True [])))"
    using buildClasspath_cases [of "server_machine (Dir True [])" server_lib "[]" "[]" "[]"]
      empty_lib_globs
    by simp
next
  show "buildClasspath server_lib
       (server_machine (Dir False [(''logback-1.2.jar'', File False ''L''), (''sfs2x.jar'', File False ''S'')])) =
     (winpath [''C:'', ''SmartFoxServer_2X'', ''SFS2X'', ''lib'', ''sfs2x.jar''],
      server_machine (Dir False [(''logback-1.2.jar'', File False ''L''), (''sfs2x.jar'', File False ''S'')]))"
    using buildClasspath_cases [of "server_machine (Dir False [(''logback-1.2.jar'', File False ''L''), (''sfs2x.jar'', File False ''S'')])" server_lib "[]" "[]" "[]"]
      unlisted_lib_globs
    by simp
qed

subsection \<open>Cleaning up: \<open>cleanupProject\<close>\<close>


lemma decimal_0 [simp]: "decimal 0 = ''0''"
  by (simp add: decimal.simps digit_char_def)

lemma stat_events [simp]: "stat (w\<lparr>events := e\<rparr>) p = stat w p"
  by (simp add: stat_def resolve_def Let_def)

lemma glob_dir_events [simp]: "glob_dir (w\<lparr>events := e\<rparr>) d pat m = glob_dir w d pat m"
  by (simp add: glob_dir_def split: stat_result.splits node.splits bool.splits)

lemma glob_events [simp]: "glob (w\<lparr>events := e\<rparr>) p = glob w p"
proof (induction w p rule: glob.induct)
  case (1 w pattern)
  show ?case
    by (subst glob.simps, subst (2) glob.simps) (simp add: 1)
qed

lemma not_visible_src_class [simp]: "\<not> visible_named ''.class'' ''src'' n"
  by (simp add: visible_named_def hasSuffix_def toLower_def toLowerChar_def)




lemma clean_source_tree_events [simp]:
  "clean_source_tree config (w\<lparr>events := e\<rparr>) = clean_source_tree config w"
  by (simp add: clean_source_tree_def)




end
